theory Spec2Isabelle
  imports Complex_Main
begin

section \<open>Data model\<close>

text \<open>
  The scripts under \<open>src/mcecm\<close> work on dense numpy arrays of fixed shape. An array is
  modelled as the function from its index tuple to its entry; the extent is carried
  beside it (\<open>3\<close> for tensor axes, the lattice side \<open>N\<close> for grid axes). Python floats are
  modelled as the real numbers they approximate, numpy complex numbers as \<open>complex\<close>;
  rounding, overflow and the non-finite values are outside this model. Python's
  \<open>ZeroDivisionError\<close> is a value of the result type.
\<close>

datatype py_error = ZeroDivisionError

type_synonym mat3 = "nat \<Rightarrow> nat \<Rightarrow> real"
type_synonym tensor4 = "nat \<Rightarrow> nat \<Rightarrow> nat \<Rightarrow> nat \<Rightarrow> real"
type_synonym vec3 = "nat \<Rightarrow> real"
type_synonym site = "nat \<times> nat \<times> nat"

text \<open>Python's true division \<open>a / b\<close> on Python numbers raises when \<open>b\<close> is zero.\<close>

definition py_truediv :: "real \<Rightarrow> real \<Rightarrow> py_error + real" where
  "py_truediv a b = (if b = 0 then Inl ZeroDivisionError else Inr (a / b))"

text \<open>\<open>np.array([[..], [..], [..]])\<close> for a 3 by 3 literal.\<close>

definition np_array3 :: "real list list \<Rightarrow> mat3" where
  "np_array3 rows = (\<lambda>i j. if i < 3 \<and> j < 3 then rows ! i ! j else 0)"

text \<open>The sum an \<open>einsum\<close> takes over one index of a tensor axis (\<open>range(3)\<close>).\<close>

definition sum3 :: "(nat \<Rightarrow> 'a::comm_monoid_add) \<Rightarrow> 'a" where
  "sum3 f = f 0 + f 1 + f 2"

section \<open>Material model\<close>

text \<open>\<open>define_dimensionless_strains\<close> (the same in all five scripts, \<open>dtype\<close> apart).\<close>

definition define_dimensionless_strains ::
  "real \<Rightarrow> real \<Rightarrow> py_error + (mat3 \<times> mat3 \<times> mat3)" where
  "define_dimensionless_strains epsilon_a gamma_0 =
     (case py_truediv epsilon_a gamma_0 of
        Inl e \<Rightarrow> Inl e
      | Inr factor \<Rightarrow>
          Inr (np_array3 [[1 + factor, 0, 0], [0, factor, 0], [0, 0, factor]],
               np_array3 [[factor, 0, 0], [0, 1 + factor, 0], [0, 0, factor]],
               np_array3 [[factor, 0, 0], [0, factor, 0], [0, 0, 1 + factor]]))"

text \<open>
  \<open>precompute_stiffness_tensor\<close>: the body of the four nested loops assigns entry
  \<open>(i, j, k, l)\<close> of an array of zeros at most once.
\<close>

definition stiffness_entry :: "real \<Rightarrow> real \<Rightarrow> real \<Rightarrow> nat \<Rightarrow> nat \<Rightarrow> nat \<Rightarrow> nat \<Rightarrow> real" where
  "stiffness_entry C11 C12 C44 i j k l =
     (if i = j \<and> k = l then (if i = k then C11 else C12)
      else if i = k \<and> j = l then (if i \<noteq> j then C44 else 0)
      else 0)"

definition precompute_stiffness_tensor :: "real \<Rightarrow> py_error + tensor4" where
  "precompute_stiffness_tensor anisoPar =
     (case py_truediv 4 anisoPar of
        Inl e \<Rightarrow> Inl e
      | Inr C11 \<Rightarrow>
          (let C12 = C11 / 2; C44 = 1
           in Inr (\<lambda>i j k l. if i < 3 \<and> j < 3 \<and> k < 3 \<and> l < 3
                               then stiffness_entry C11 C12 C44 i j k l else 0)))"

text \<open>
  The material model as \<open>main\<close> of \<open>sporc_mpi6.py\<close> runs it, first of all: the strains,
  then the stiffness tensor. An exception of the first call ends the run.
\<close>

definition material_model ::
  "real \<Rightarrow> real \<Rightarrow> real \<Rightarrow> py_error + (tensor4 \<times> mat3 \<times> mat3 \<times> mat3)" where
  "material_model anisoPar epsilon_a gamma_0 =
     (case define_dimensionless_strains epsilon_a gamma_0 of
        Inl e \<Rightarrow> Inl e
      | Inr strains \<Rightarrow>
          (case precompute_stiffness_tensor anisoPar of
             Inl e \<Rightarrow> Inl e
           | Inr C \<Rightarrow> Inr (C, strains)))"

section \<open>Acoustic tensors\<close>

text \<open>
  \<open>np.einsum("ijmn,m,n->ij", C, n, n)\<close> of \<open>sporc_mpi6.py\<close>, \<open>mac1.py\<close> and \<open>debug.py\<close>, and
  \<open>np.einsum("imjn,m,n->ij", C, n, n)\<close> of \<open>mac5.py\<close> and \<open>mac6.py\<close>.
\<close>

definition acoustic_ijmn :: "tensor4 \<Rightarrow> vec3 \<Rightarrow> mat3" where
  "acoustic_ijmn C n = (\<lambda>i j. sum3 (\<lambda>m. sum3 (\<lambda>n'. C i j m n' * n m * n n')))"

definition acoustic_imjn :: "tensor4 \<Rightarrow> vec3 \<Rightarrow> mat3" where
  "acoustic_imjn C n = (\<lambda>i j. sum3 (\<lambda>m. sum3 (\<lambda>n'. C i m j n' * n m * n n')))"

text \<open>The same contraction with the two direction slots inside the pairs swapped.\<close>

definition acoustic_imnj :: "tensor4 \<Rightarrow> vec3 \<Rightarrow> mat3" where
  "acoustic_imnj C n = (\<lambda>i j. sum3 (\<lambda>m. sum3 (\<lambda>n'. C i m n' j * n m * n n')))"

definition unit_x :: vec3 where
  "unit_x = (\<lambda>c. if c = 0 then 1 else 0)"

section \<open>Reciprocal grid and kernel\<close>

text \<open>
  \<open>np.fft.fftfreq(n, d)\<close>: the integer frequencies \<open>0, 1, ..\<close> up to index
  \<open>(n - 1) // 2\<close>, the negative ones \<open>i - n\<close> after it, each times \<open>1 / (n * d)\<close>.
\<close>

definition fftfreq :: "nat \<Rightarrow> real \<Rightarrow> nat \<Rightarrow> real" where
  "fftfreq n d i =
     (if i < (n - 1) div 2 + 1 then real i else real_of_int (int i - int n)) * (1 / (real n * d))"

text \<open>\<open>q_grid[qx, qy, qz]\<close> after \<open>meshgrid(.., indexing = "ij")\<close> and \<open>stack(.., axis = -1)\<close>.\<close>

definition q_grid_of :: "nat \<Rightarrow> site \<Rightarrow> vec3" where
  "q_grid_of N = (\<lambda>(qx, qy, qz) c.
     let q_range = fftfreq N (1 / (2 * pi))
     in if c = 0 then q_range qx else if c = 1 then q_range qy
        else if c = 2 then q_range qz else 0)"

definition norm3 :: "vec3 \<Rightarrow> real" where
  "norm3 k = sqrt ((k 0)\<^sup>2 + (k 1)\<^sup>2 + (k 2)\<^sup>2)"

text \<open>
  \<open>np.linalg.det\<close> and \<open>np.linalg.inv\<close> on a 3 by 3 matrix, in exact arithmetic: the
  cofactor expansion and the adjugate over the determinant. \<open>cofactor M r c\<close> is the signed
  minor of row \<open>r\<close> and column \<open>c\<close>.
\<close>

definition cofactor :: "mat3 \<Rightarrow> nat \<Rightarrow> nat \<Rightarrow> real" where
  "cofactor M r c =
     M ((r + 1) mod 3) ((c + 1) mod 3) * M ((r + 2) mod 3) ((c + 2) mod 3)
     - M ((r + 1) mod 3) ((c + 2) mod 3) * M ((r + 2) mod 3) ((c + 1) mod 3)"

definition np_linalg_det :: "mat3 \<Rightarrow> real" where
  "np_linalg_det M = sum3 (\<lambda>c. M 0 c * cofactor M 0 c)"

definition np_linalg_inv :: "mat3 \<Rightarrow> mat3" where
  "np_linalg_inv M = (\<lambda>i j. if i < 3 \<and> j < 3 then cofactor M j i / np_linalg_det M else 0)"

text \<open>\<open>G = np.linalg.inv(G_inv) if np.linalg.det(G_inv) != 0 else np.zeros((3, 3))\<close>.\<close>

definition greens_operator :: "mat3 \<Rightarrow> mat3" where
  "greens_operator G_inv =
     (if np_linalg_det G_inv \<noteq> 0 then np_linalg_inv G_inv else (\<lambda>i j. 0))"

definition k_unit_of :: "vec3 \<Rightarrow> vec3" where
  "k_unit_of k = (\<lambda>c. k c / norm3 k)"

text \<open>
  The kernel entry of \<open>sporc_mpi6.py\<close> (and \<open>mac1.py\<close>, \<open>debug.py\<close>) at a wavevector of
  nonzero norm. In \<open>np.einsum("mn,im,nj->", G, C[:, :, i, j], C[:, :, k, l])\<close> the labels
  \<open>i\<close> and \<open>j\<close> of the subscript string are summation labels of their own (here \<open>a\<close>
  and \<open>b\<close>), not the loop variables.
\<close>

definition kernel_entry_sporc :: "tensor4 \<Rightarrow> vec3 \<Rightarrow> tensor4" where
  "kernel_entry_sporc C k =
     (let k_unit = k_unit_of k;
          G_inv = acoustic_ijmn C k_unit;
          G = greens_operator G_inv
      in (\<lambda>i j k l. if i < 3 \<and> j < 3 \<and> k < 3 \<and> l < 3
            then C i j k l
                 - sum3 (\<lambda>m. sum3 (\<lambda>n. sum3 (\<lambda>a. sum3 (\<lambda>b. G m n * C a m i j * C n b k l))))
            else 0))"

definition precompute_reciprocal_space_and_kernel_sporc ::
  "nat \<Rightarrow> tensor4 \<Rightarrow> (site \<Rightarrow> vec3) \<times> (site \<Rightarrow> tensor4)" where
  "precompute_reciprocal_space_and_kernel_sporc N stiffness_tensor =
     (let q_grid = q_grid_of N
      in (q_grid,
          (\<lambda>(qx_idx, qy_idx, qz_idx).
             if qx_idx < N \<and> qy_idx < N \<and> qz_idx < N
                \<and> norm3 (q_grid (qx_idx, qy_idx, qz_idx)) \<noteq> 0
             then kernel_entry_sporc stiffness_tensor (q_grid (qx_idx, qy_idx, qz_idx))
             else (\<lambda>i j k l. 0))))"

text \<open>The kernel entry of \<open>mac5.py\<close> and \<open>mac6.py\<close>, through its three intermediates.\<close>

definition kernel_entry_mac5 :: "tensor4 \<Rightarrow> vec3 \<Rightarrow> tensor4" where
  "kernel_entry_mac5 C k =
     (let k_unit = k_unit_of k;
          G_inv = acoustic_imjn C k_unit;
          G = greens_operator G_inv;
          intermediate_1 = (\<lambda>q i j. sum3 (\<lambda>p. k_unit p * C p q i j));
          intermediate_2 = (\<lambda>i j r. sum3 (\<lambda>q. intermediate_1 q i j * G q r));
          intermediate_3 = (\<lambda>r k l. sum3 (\<lambda>s. C r s k l * k_unit s))
      in (\<lambda>i j k l. if i < 3 \<and> j < 3 \<and> k < 3 \<and> l < 3
            then C i j k l - sum3 (\<lambda>r. intermediate_2 i j r * intermediate_3 r k l)
            else 0))"

definition precompute_reciprocal_space_and_kernel_mac5 ::
  "nat \<Rightarrow> tensor4 \<Rightarrow> (site \<Rightarrow> vec3) \<times> (site \<Rightarrow> tensor4)" where
  "precompute_reciprocal_space_and_kernel_mac5 N stiffness_tensor =
     (let q_grid = q_grid_of N
      in (q_grid,
          (\<lambda>(qx_idx, qy_idx, qz_idx).
             if qx_idx < N \<and> qy_idx < N \<and> qz_idx < N
                \<and> norm3 (q_grid (qx_idx, qy_idx, qz_idx)) \<noteq> 0
             then kernel_entry_mac5 stiffness_tensor (q_grid (qx_idx, qy_idx, qz_idx))
             else (\<lambda>i j k l. 0))))"

text \<open>
  The kernel entry in the words of the specification, to compare the code with:
  \<open>B(q) = C - (n \<cdot> C) \<cdot> G \<cdot> (C \<cdot> n)\<close>, the direction \<open>n\<close> contracted with the first index of
  \<open>C\<close> on the left of \<open>G\<close> and with the second index of \<open>C\<close> on its right.
\<close>

definition kernel_entry_spec :: "tensor4 \<Rightarrow> vec3 \<Rightarrow> mat3 \<Rightarrow> tensor4" where
  "kernel_entry_spec C n G =
     (\<lambda>i j k l. C i j k l
        - sum3 (\<lambda>p. sum3 (\<lambda>q. sum3 (\<lambda>r. sum3 (\<lambda>s.
            (n p * C p q i j) * G q r * (C r s k l * n s))))))"

text \<open>
  The start of \<open>main\<close> in \<open>sporc_mpi6.py\<close>: the material model, then the kernel; the Monte
  Carlo stages come after both.
\<close>

definition main_setup ::
  "nat \<Rightarrow> real \<Rightarrow> real \<Rightarrow> real \<Rightarrow>
   py_error + (mat3 \<times> mat3 \<times> mat3) \<times> tensor4 \<times> (site \<Rightarrow> vec3) \<times> (site \<Rightarrow> tensor4)" where
  "main_setup lattice_size anisoPar epsilon_a gamma_0 =
     (case define_dimensionless_strains epsilon_a gamma_0 of
        Inl e \<Rightarrow> Inl e
      | Inr strains \<Rightarrow>
          (case precompute_stiffness_tensor anisoPar of
             Inl e \<Rightarrow> Inl e
           | Inr stiffness_tensor \<Rightarrow>
               Inr (strains, stiffness_tensor,
                    precompute_reciprocal_space_and_kernel_sporc lattice_size stiffness_tensor)))"

section \<open>Strain field, spectrum and energy\<close>

type_synonym lattice = "site \<Rightarrow> int"
type_synonym strain_field = "site \<Rightarrow> mat3"
type_synonym spectrum = "site \<Rightarrow> nat \<Rightarrow> nat \<Rightarrow> complex"

text \<open>\<open>compute_strain_field\<close>: an array of zeros, filled site by site from the spin.\<close>

definition compute_strain_field :: "nat \<Rightarrow> lattice \<Rightarrow> mat3 \<Rightarrow> mat3 \<Rightarrow> mat3 \<Rightarrow> strain_field" where
  "compute_strain_field N lattice_spins epsilon_1 epsilon_2 epsilon_3 =
     (\<lambda>(x, y, z).
        if x < N \<and> y < N \<and> z < N then
          (let spin = lattice_spins (x, y, z)
           in if spin = 1 then epsilon_1
              else if spin = 2 then epsilon_2
              else if spin = 3 then epsilon_3
              else (\<lambda>i j. 0))
        else (\<lambda>i j. 0))"

text \<open>
  \<open>np.fft.fftn(a, axes = (0, 1, 2))\<close>: the discrete Fourier transform over the three grid
  axes, for each of the nine tensor components.
\<close>

definition fftn :: "nat \<Rightarrow> strain_field \<Rightarrow> spectrum" where
  "fftn N a =
     (\<lambda>(k1, k2, k3) i j.
        if k1 < N \<and> k2 < N \<and> k3 < N then
          sum_list (map (\<lambda>x. sum_list (map (\<lambda>y. sum_list (map (\<lambda>z.
            complex_of_real (a (x, y, z) i j)
              * cis (- 2 * pi * real (k1 * x + k2 * y + k3 * z) / real N))
            [0..<N])) [0..<N])) [0..<N])
        else 0)"

text \<open>
  \<open>np.allclose(q, 0)\<close> with numpy's default tolerances: every component within
  \<open>atol = 1e-8\<close> of zero.
\<close>

definition np_allclose_zero :: "vec3 \<Rightarrow> bool" where
  "np_allclose_zero q \<longleftrightarrow> \<bar>q 0\<bar> \<le> 1 / 10 ^ 8 \<and> \<bar>q 1\<bar> \<le> 1 / 10 ^ 8 \<and> \<bar>q 2\<bar> \<le> 1 / 10 ^ 8"

text \<open>\<open>np.real(np.einsum("ij,ijkl,kl->", strain_ft[q], B[q], strain_ft[q].conj()))\<close>.\<close>

definition energy_density :: "(site \<Rightarrow> tensor4) \<Rightarrow> spectrum \<Rightarrow> site \<Rightarrow> real" where
  "energy_density B strain_ft q =
     Re (sum3 (\<lambda>i. sum3 (\<lambda>j. sum3 (\<lambda>k. sum3 (\<lambda>l.
           strain_ft q i j * complex_of_real (B q i j k l) * cnj (strain_ft q k l))))))"

text \<open>
  Python's \<open>range(start, stop, step)\<close> for a positive step. Python raises \<open>ValueError\<close> for
  step \<open>0\<close>; the step here is the size of the MPI communicator, which is at least \<open>1\<close>.
\<close>

function py_range :: "nat \<Rightarrow> nat \<Rightarrow> nat \<Rightarrow> nat list" where
  "py_range start stop step =
     (if step = 0 \<or> stop \<le> start then [] else start # py_range (start + step) stop step)"
  by pat_completeness auto
termination
  by (relation "measure (\<lambda>(start, stop, step). stop - start)") auto

declare py_range.simps [simp del]

text \<open>
  The three nested loops of \<open>compute_elastic_energy\<close> with their accumulator
  \<open>local_energy\<close>: first axis over \<open>range(rank, N, size)\<close>, the other two over \<open>range(N)\<close>,
  \<open>continue\<close> where the wavevector is close to zero.
\<close>

definition local_energy_loop ::
  "nat \<Rightarrow> (site \<Rightarrow> vec3) \<Rightarrow> (site \<Rightarrow> tensor4) \<Rightarrow> spectrum \<Rightarrow> nat \<Rightarrow> nat \<Rightarrow> real" where
  "local_energy_loop N q_grid B strain_ft rank size' =
     foldl (\<lambda>local_energy qx_idx.
       foldl (\<lambda>local_energy qy_idx.
         foldl (\<lambda>local_energy qz_idx.
           if np_allclose_zero (q_grid (qx_idx, qy_idx, qz_idx)) then local_energy
           else local_energy + energy_density B strain_ft (qx_idx, qy_idx, qz_idx))
         local_energy [0..<N])
       local_energy [0..<N])
     0 (py_range rank N size')"

text \<open>
  What one index of the first axis adds to the accumulator: the two inner loops, as a sum.
\<close>

definition slab_energy :: "nat \<Rightarrow> (site \<Rightarrow> vec3) \<Rightarrow> (site \<Rightarrow> tensor4) \<Rightarrow> spectrum \<Rightarrow> nat \<Rightarrow> real" where
  "slab_energy N q_grid B strain_ft qx_idx =
     sum_list (map (\<lambda>qy_idx. sum_list (map (\<lambda>qz_idx.
       if np_allclose_zero (q_grid (qx_idx, qy_idx, qz_idx)) then 0
       else energy_density B strain_ft (qx_idx, qy_idx, qz_idx)) [0..<N])) [0..<N])"

text \<open>\<open>compute_elastic_energy\<close> of \<open>sporc_mpi6.py\<close>, \<open>mac1.py\<close> and \<open>debug.py\<close>.\<close>

definition compute_elastic_energy_sporc ::
  "nat \<Rightarrow> (site \<Rightarrow> vec3) \<Rightarrow> (site \<Rightarrow> tensor4) \<Rightarrow> spectrum \<Rightarrow> nat \<Rightarrow> nat \<Rightarrow> real" where
  "compute_elastic_energy_sporc N q_grid B strain_ft rank size' =
     local_energy_loop N q_grid B strain_ft rank size'"

text \<open>\<open>compute_elastic_energy\<close> of \<open>mac5.py\<close>: divided by \<open>16 * np.pi**3\<close>.\<close>

definition compute_elastic_energy_mac5 ::
  "nat \<Rightarrow> (site \<Rightarrow> vec3) \<Rightarrow> (site \<Rightarrow> tensor4) \<Rightarrow> spectrum \<Rightarrow> nat \<Rightarrow> nat \<Rightarrow> real" where
  "compute_elastic_energy_mac5 N q_grid B strain_ft rank size' =
     local_energy_loop N q_grid B strain_ft rank size' / (16 * pi ^ 3)"

text \<open>
  \<open>compute_elastic_energy\<close> of \<open>mac6.py\<close>: divided by \<open>2 * N**3\<close> (the lattice side is at
  least \<open>1\<close>).
\<close>

definition compute_elastic_energy_mac6 ::
  "nat \<Rightarrow> (site \<Rightarrow> vec3) \<Rightarrow> (site \<Rightarrow> tensor4) \<Rightarrow> spectrum \<Rightarrow> nat \<Rightarrow> nat \<Rightarrow> real" where
  "compute_elastic_energy_mac6 N q_grid B strain_ft rank size' =
     local_energy_loop N q_grid B strain_ft rank size' / (2 * real N ^ 3)"

text \<open>
  \<open>comm.reduce(local, op = MPI.SUM, root = 0)\<close> followed by \<open>comm.bcast(.., root = 0)\<close>: every
  rank ends with the sum of the ranks' values, rank \<open>0\<close> first.
\<close>

definition mpi_allsum :: "nat \<Rightarrow> (nat \<Rightarrow> real) \<Rightarrow> real" where
  "mpi_allsum size' local = sum_list (map local [0..<size'])"

section \<open>Monte Carlo step\<close>

text \<open>
  What the random number generators return in one call of \<open>monte_carlo_step\<close>:
  \<open>np.random.randint(0, N, size = 3)\<close>, the index \<open>random.choice\<close> picks in its list, and
  \<open>random.random()\<close>. The generators keep them in range: the site inside the lattice, the
  index below the length of the list, the uniform number in \<open>[0, 1)\<close>.
\<close>

record draws =
  site_drawn :: site
  choice_index :: nat
  uniform :: real

text \<open>\<open>random.choice([s for s in [1, 2, 3] if s != current_spin])\<close>.\<close>

definition proposed_spin_of :: "int \<Rightarrow> nat \<Rightarrow> int" where
  "proposed_spin_of current_spin idx = filter (\<lambda>s. s \<noteq> current_spin) [1, 2, 3] ! idx"

text \<open>
  The Metropolis probability. \<open>np.clip(x, None, 700)\<close> is the minimum of \<open>x\<close> and \<open>700\<close>;
  \<open>delta_E\<close> is a numpy float, so for \<open>temperature = 0\<close> the quotient of a positive
  \<open>delta_E\<close> is \<open>+inf\<close>, which the clip takes to \<open>700\<close>.
\<close>

definition clipped_exponent :: "real \<Rightarrow> real \<Rightarrow> real" where
  "clipped_exponent delta_E temperature =
     (let max_exp_arg = 700
      in if temperature = 0 then max_exp_arg else min (delta_E / temperature) max_exp_arg)"

definition acceptance_probability :: "real \<Rightarrow> real \<Rightarrow> real" where
  "acceptance_probability delta_E temperature =
     (if delta_E > 0 then exp (- clipped_exponent delta_E temperature) else 1)"

subsection \<open>\<open>sporc_mpi6.py\<close> (and \<open>mac1.py\<close>, \<open>debug.py\<close>)\<close>

text \<open>
  What one rank holds between two calls: \<open>lattice_spins\<close> and \<open>strain_ft\<close> are arrays the
  call mutates in place, \<open>current_energy\<close> is rebound by the caller to the returned value.
\<close>

record sporc_state =
  lattice_spins :: lattice
  strain_ft :: spectrum
  current_energy :: real

text \<open>
  Up to the reduction: the rank draws its own site and spin, writes the proposal into its
  lattice and transforms the strain field of the tentative lattice. The result is the
  mutated lattice, the spin it replaced, and the new spectrum.
\<close>

definition sporc_propose ::
  "nat \<Rightarrow> mat3 \<Rightarrow> mat3 \<Rightarrow> mat3 \<Rightarrow> sporc_state \<Rightarrow> draws \<Rightarrow> lattice \<times> int \<times> spectrum" where
  "sporc_propose N epsilon_1 epsilon_2 epsilon_3 st d =
     (let xyz = site_drawn d;
          current_spin = lattice_spins st xyz;
          proposed_spin = proposed_spin_of current_spin (choice_index d);
          lattice' = (lattice_spins st)(xyz := proposed_spin);
          new_strain_field = compute_strain_field N lattice' epsilon_1 epsilon_2 epsilon_3;
          strain_ft_new = fftn N new_strain_field
      in (lattice', current_spin, strain_ft_new))"

text \<open>After the reduction: the Metropolis test with the rank's own uniform draw.\<close>

definition sporc_decide ::
  "real \<Rightarrow> sporc_state \<Rightarrow> draws \<Rightarrow> lattice \<times> int \<times> spectrum \<Rightarrow> real \<Rightarrow> bool \<times> sporc_state" where
  "sporc_decide temperature st d tentative E_new =
     (case tentative of (lattice', current_spin, strain_ft_new) \<Rightarrow>
        let delta_E = E_new - current_energy st;
            prob = acceptance_probability delta_E temperature
        in if uniform d < prob
           then (True, \<lparr>lattice_spins = lattice', strain_ft = strain_ft_new,
                        current_energy = E_new\<rparr>)
           else (False, \<lparr>lattice_spins = lattice'(site_drawn d := current_spin),
                         strain_ft = strain_ft st, current_energy = current_energy st\<rparr>))"

text \<open>
  One call of \<open>monte_carlo_step\<close> on all ranks of the communicator, in lock step: entry
  \<open>r\<close> of the lists belongs to rank \<open>r\<close>. Each rank contributes the partial energy of its
  own tentative spectrum to the sum.
\<close>

definition monte_carlo_step_sporc ::
  "nat \<Rightarrow> real \<Rightarrow> (site \<Rightarrow> vec3) \<Rightarrow> (site \<Rightarrow> tensor4) \<Rightarrow> mat3 \<Rightarrow> mat3 \<Rightarrow> mat3 \<Rightarrow>
   sporc_state list \<Rightarrow> draws list \<Rightarrow> (bool \<times> sporc_state) list" where
  "monte_carlo_step_sporc N temperature q_grid B epsilon_1 epsilon_2 epsilon_3 states ds =
     (let size' = length states;
          tentative = (\<lambda>r. sporc_propose N epsilon_1 epsilon_2 epsilon_3 (states ! r) (ds ! r));
          local_E_new = (\<lambda>r. compute_elastic_energy_sporc N q_grid B
                                (snd (snd (tentative r))) r size');
          E_new = mpi_allsum size' local_E_new
      in map (\<lambda>r. sporc_decide temperature (states ! r) (ds ! r) (tentative r) E_new)
           [0..<size'])"

subsection \<open>\<open>mac5.py\<close>\<close>

text \<open>
  What one rank holds between two calls in \<open>main\<close>: its \<open>lattice_spins\<close>, its
  \<open>strain_field\<close> and \<open>current_energy\<close>.
\<close>

record mac5_state =
  lattice_spins5 :: lattice
  strain_field5 :: strain_field
  current_energy5 :: real

text \<open>
  Rank \<open>0\<close> up to the broadcast of the spectrum. \<open>strain_field_new = strain_field\<close> binds
  a second name to the same array, so the assignment to \<open>strain_field_new[x, y, z]\<close>
  writes into \<open>strain_field\<close>.
\<close>

definition mac5_propose ::
  "nat \<Rightarrow> mat3 \<Rightarrow> mat3 \<Rightarrow> mat3 \<Rightarrow> mac5_state \<Rightarrow> draws \<Rightarrow> int \<times> strain_field \<times> spectrum" where
  "mac5_propose N epsilon_1 epsilon_2 epsilon_3 st d =
     (let xyz = site_drawn d;
          current_spin = lattice_spins5 st xyz;
          proposed_spin = proposed_spin_of current_spin (choice_index d);
          strain_field_new =
            (if proposed_spin = 1 then (strain_field5 st)(xyz := epsilon_1)
             else if proposed_spin = 2 then (strain_field5 st)(xyz := epsilon_2)
             else if proposed_spin = 3 then (strain_field5 st)(xyz := epsilon_3)
             else strain_field5 st);
          strain_ft_new = fftn N strain_field_new
      in (proposed_spin, strain_field_new, strain_ft_new))"

text \<open>
  Rank \<open>0\<close> after the reduction. \<open>strain_field[x, y, z] = strain_field_new[x, y, z]\<close> copies
  an entry of the array onto itself; the array is the mutated one on both branches.
\<close>

definition mac5_decide ::
  "real \<Rightarrow> mac5_state \<Rightarrow> draws \<Rightarrow> int \<times> strain_field \<times> spectrum \<Rightarrow> real \<Rightarrow> bool \<times> mac5_state" where
  "mac5_decide temperature st d tentative E_new =
     (case tentative of (proposed_spin, strain_field_new, strain_ft_new) \<Rightarrow>
        let delta_E = E_new - current_energy5 st;
            prob = acceptance_probability delta_E temperature
        in if uniform d < prob
           then (True, \<lparr>lattice_spins5 = (lattice_spins5 st)(site_drawn d := proposed_spin),
                        strain_field5 =
                          strain_field_new(site_drawn d := strain_field_new (site_drawn d)),
                        current_energy5 = E_new\<rparr>)
           else (False, \<lparr>lattice_spins5 = lattice_spins5 st,
                         strain_field5 = strain_field_new,
                         current_energy5 = current_energy5 st\<rparr>))"

text \<open>
  One call on all ranks. Only rank \<open>0\<close> draws. The spectrum and the flag \<open>accepted\<close> are
  broadcast; \<open>lattice_spins = comm.bcast(lattice_spins, root = 0)\<close> and the same line for
  \<open>strain_field\<close> rebind names local to the call, and a rank other than \<open>0\<close> returns the
  \<open>current_energy\<close> it was given: the arrays and the energy its \<open>main\<close> holds stay as they
  were.
\<close>

definition monte_carlo_step_mac5 ::
  "nat \<Rightarrow> real \<Rightarrow> (site \<Rightarrow> vec3) \<Rightarrow> (site \<Rightarrow> tensor4) \<Rightarrow> mat3 \<Rightarrow> mat3 \<Rightarrow> mat3 \<Rightarrow>
   mac5_state list \<Rightarrow> draws \<Rightarrow> (bool \<times> mac5_state) list" where
  "monte_carlo_step_mac5 N temperature q_grid B epsilon_1 epsilon_2 epsilon_3 states d =
     (let size' = length states;
          tentative = mac5_propose N epsilon_1 epsilon_2 epsilon_3 (states ! 0) d;
          strain_ft_new = snd (snd tentative);
          local_E_new = (\<lambda>r. compute_elastic_energy_mac5 N q_grid B strain_ft_new r size');
          E_new = mpi_allsum size' local_E_new;
          root = mac5_decide temperature (states ! 0) d tentative E_new
      in map (\<lambda>r. if r = 0 then root else (fst root, states ! r)) [0..<size'])"

section \<open>Concrete inputs\<close>

text \<open>
  The stiffness tensor of \<open>anisoPar = 1\<close>, the value every \<open>main\<close> sets, and the unit
  direction of the wavevector at grid index \<open>(1, 0, 0)\<close> of the grid of side \<open>2\<close>
  (\<open>fftfreq\<close> gives \<open>- pi\<close> there).
\<close>

definition stiffness_aniso1 :: tensor4 where
  "stiffness_aniso1 = (\<lambda>i j k l. if i < 3 \<and> j < 3 \<and> k < 3 \<and> l < 3
                                   then stiffness_entry 4 2 1 i j k l else 0)"

definition minus_x :: vec3 where
  "minus_x = (\<lambda>c. if c = 0 then - 1 else 0)"

text \<open>
  The three reference strains of \<open>epsilon_a = 0.0\<close>, \<open>gamma_0 = 0.4\<close>, the values \<open>main\<close> of
  \<open>mac5.py\<close> sets.
\<close>

definition unit_strain_1 :: mat3 where
  "unit_strain_1 = np_array3 [[1, 0, 0], [0, 0, 0], [0, 0, 0]]"

definition unit_strain_2 :: mat3 where
  "unit_strain_2 = np_array3 [[0, 0, 0], [0, 1, 0], [0, 0, 0]]"

definition unit_strain_3 :: mat3 where
  "unit_strain_3 = np_array3 [[0, 0, 0], [0, 0, 0], [0, 0, 1]]"

section \<open>Properties of the material model\<close>

lemma precompute_stiffness_tensor_Inr:
  "a \<noteq> 0 \<Longrightarrow> precompute_stiffness_tensor a =
     Inr (\<lambda>i j k l. if i < 3 \<and> j < 3 \<and> k < 3 \<and> l < 3
                      then stiffness_entry (4 / a) (2 / a) 1 i j k l else 0)"
  by (simp add: precompute_stiffness_tensor_def py_truediv_def)

lemma precompute_stiffness_tensor_entry:
  assumes "precompute_stiffness_tensor a = Inr C"
  shows "a \<noteq> 0"
    and "C i j k l = (if i < 3 \<and> j < 3 \<and> k < 3 \<and> l < 3
                      then stiffness_entry (4 / a) (2 / a) 1 i j k l else 0)"
proof -
  show nz: "a \<noteq> 0"
    using assms by (auto simp: precompute_stiffness_tensor_def py_truediv_def split: if_splits)
  from assms precompute_stiffness_tensor_Inr [OF nz]
  have "C = (\<lambda>i j k l. if i < 3 \<and> j < 3 \<and> k < 3 \<and> l < 3
                      then stiffness_entry (4 / a) (2 / a) 1 i j k l else 0)"
    by simp
  then show "C i j k l = (if i < 3 \<and> j < 3 \<and> k < 3 \<and> l < 3
                      then stiffness_entry (4 / a) (2 / a) 1 i j k l else 0)"
    by simp
qed

text \<open>
  C6. For every anisotropy parameter \<open>a > 0\<close> the stiffness tensor is returned and has
  \<open>C[i,i,i,i] = 4/a\<close>, \<open>C[i,i,j,j] = 2/a\<close> for \<open>i \<noteq> j\<close>, \<open>C[i,j,i,j] = 1\<close> for \<open>i \<noteq> j\<close>
  (so \<open>C44 = 1\<close>), zero in every other entry, and it is symmetric under the swap of the
  index pairs \<open>(i,j)\<close> and \<open>(k,l)\<close>.
\<close>

theorem stiffness_tensor_cubic:
  assumes "0 < a" and "i < 3" and "j < 3" and "k < 3" and "l < 3"
  shows "\<exists>C. precompute_stiffness_tensor a = Inr C
           \<and> C i i i i = 4 / a
           \<and> (i \<noteq> j \<longrightarrow> C i i j j = 2 / a \<and> C i j i j = 1)
           \<and> (\<not> (i = j \<and> k = l) \<and> \<not> (i = k \<and> j = l) \<longrightarrow> C i j k l = 0)
           \<and> C i j k l = C k l i j"
proof -
  from assms(1) have nz: "a \<noteq> 0" by simp
  show ?thesis
    using assms(2-5)
    by (simp add: precompute_stiffness_tensor_Inr [OF nz] stiffness_entry_def)
qed

theorem stiffness_tensor_cubic_witness:
  "\<exists>C. precompute_stiffness_tensor 1 = Inr C
       \<and> C 0 0 0 0 = 4 \<and> C 0 0 1 1 = 2 \<and> C 0 1 0 1 = 1 \<and> C 0 1 1 2 = 0
       \<and> C 0 1 1 2 = C 1 2 0 1"
  using stiffness_tensor_cubic [of 1 0 1 1 2] stiffness_tensor_cubic [of 1 0 1 0 1]
  by (auto simp: precompute_stiffness_tensor_def py_truediv_def stiffness_entry_def)

text \<open>
  C9. The stiffness tensor lacks the minor symmetries: for every anisotropy parameter the
  builder accepts and all \<open>i \<noteq> j\<close>, \<open>C[i,j,i,j] = 1\<close> while \<open>C[i,j,j,i] = 0\<close> and
  \<open>C[j,i,i,j] = 0\<close>. So the acoustic tensor depends on the slots the direction is
  contracted with: along the first axis the entry \<open>[1,1]\<close> is \<open>1\<close> for the slots of
  \<open>mac5.py\<close> (\<open>imjn\<close>), \<open>0\<close> for the same slots swapped inside the second pair
  (\<open>imnj\<close>), and \<open>2/a\<close> for the slots of \<open>sporc_mpi6.py\<close> (\<open>ijmn\<close>).
\<close>

theorem stiffness_tensor_no_minor_symmetry:
  assumes "a \<noteq> 0" and "i < 3" and "j < 3" and "i \<noteq> j"
  shows "\<exists>C. precompute_stiffness_tensor a = Inr C
           \<and> C i j i j = 1 \<and> C i j j i = 0 \<and> C j i i j = 0
           \<and> acoustic_imjn C unit_x 1 1 = 1 \<and> acoustic_imnj C unit_x 1 1 = 0
           \<and> acoustic_ijmn C unit_x 1 1 = 2 / a
           \<and> acoustic_imjn C unit_x \<noteq> acoustic_imnj C unit_x
           \<and> (a \<noteq> 2 \<longrightarrow> acoustic_ijmn C unit_x \<noteq> acoustic_imjn C unit_x)"
proof -
  let ?C = "\<lambda>i j k l. if i < 3 \<and> j < 3 \<and> k < 3 \<and> l < 3
                      then stiffness_entry (4 / a) (2 / a) 1 i j k l else 0"
  have C: "precompute_stiffness_tensor a = Inr ?C"
    by (rule precompute_stiffness_tensor_Inr [OF assms(1)])
  have e1: "?C i j i j = 1" "?C i j j i = 0" "?C j i i j = 0"
    using assms(2-4) by (simp_all add: stiffness_entry_def)
  have g1: "acoustic_imjn ?C unit_x 1 1 = 1"
    by (simp add: acoustic_imjn_def sum3_def unit_x_def stiffness_entry_def)
  have g2: "acoustic_imnj ?C unit_x 1 1 = 0"
    by (simp add: acoustic_imnj_def sum3_def unit_x_def stiffness_entry_def)
  have g3: "acoustic_ijmn ?C unit_x 1 1 = 2 / a"
    by (simp add: acoustic_ijmn_def sum3_def unit_x_def stiffness_entry_def)
  have d1: "acoustic_imjn ?C unit_x \<noteq> acoustic_imnj ?C unit_x"
    using g1 g2 by (metis zero_neq_one)
  have d2: "a \<noteq> 2 \<longrightarrow> acoustic_ijmn ?C unit_x \<noteq> acoustic_imjn ?C unit_x"
  proof
    assume "a \<noteq> 2"
    with assms(1) have "2 / a \<noteq> 1" by (simp add: field_simps)
    with g1 g3 show "acoustic_ijmn ?C unit_x \<noteq> acoustic_imjn ?C unit_x" by metis
  qed
  from C e1 g1 g2 g3 d1 d2 show ?thesis by blast
qed

theorem stiffness_tensor_no_minor_symmetry_witness:
  "\<exists>C. precompute_stiffness_tensor 1 = Inr C
       \<and> C 0 1 0 1 = 1 \<and> C 0 1 1 0 = 0 \<and> C 1 0 0 1 = 0
       \<and> acoustic_imjn C unit_x \<noteq> acoustic_imnj C unit_x
       \<and> acoustic_ijmn C unit_x \<noteq> acoustic_imjn C unit_x"
  using stiffness_tensor_no_minor_symmetry [of 1 0 1] by auto

text \<open>
  C7, as the claim states it, fails: a negative anisotropy parameter is not refused. The
  material model has no check of its parameters; the only failure is the division by
  zero, and \<open>anisoPar = -1\<close> returns a (negative) stiffness tensor.
\<close>

theorem material_model_negative_anisotropy_counterexample:
  "(-1 :: real) \<le> 0 \<and> (\<exists>r. material_model (-1) (1/10) (2/5) = Inr r)"
  by (simp add: material_model_def define_dimensionless_strains_def
      precompute_stiffness_tensor_def py_truediv_def)

text \<open>
  C7, amended. The material model fails, with \<open>ZeroDivisionError\<close>, if and only if the
  anisotropy parameter is \<open>0\<close> or the reference shear \<open>gamma_0\<close> is \<open>0\<close>; the failure ends
  \<open>main\<close> before the kernel is built and before any Monte Carlo stage. For \<open>a \<noteq> 0\<close> and
  \<open>gamma_0 \<noteq> 0\<close> (negative \<open>a\<close> included) it returns the stiffness tensor and the three
  reference strains as functions of the scalars alone.
\<close>

theorem material_model_error_iff:
  "(material_model a epsilon_a gamma_0 = Inl ZeroDivisionError \<longleftrightarrow> a = 0 \<or> gamma_0 = 0)
   \<and> (a = 0 \<or> gamma_0 = 0 \<longrightarrow> main_setup N a epsilon_a gamma_0 = Inl ZeroDivisionError)
   \<and> (a \<noteq> 0 \<and> gamma_0 \<noteq> 0 \<longrightarrow>
        material_model a epsilon_a gamma_0 =
          Inr (\<lambda>i j k l. if i < 3 \<and> j < 3 \<and> k < 3 \<and> l < 3
                           then stiffness_entry (4 / a) (2 / a) 1 i j k l else 0,
               np_array3 [[1 + epsilon_a / gamma_0, 0, 0], [0, epsilon_a / gamma_0, 0],
                          [0, 0, epsilon_a / gamma_0]],
               np_array3 [[epsilon_a / gamma_0, 0, 0], [0, 1 + epsilon_a / gamma_0, 0],
                          [0, 0, epsilon_a / gamma_0]],
               np_array3 [[epsilon_a / gamma_0, 0, 0], [0, epsilon_a / gamma_0, 0],
                          [0, 0, 1 + epsilon_a / gamma_0]]))"
  by (auto simp: material_model_def main_setup_def define_dimensionless_strains_def
      precompute_stiffness_tensor_def py_truediv_def split: sum.splits)

theorem material_model_error_iff_witness:
  "material_model (-1) (1/10) (2/5) \<noteq> Inl ZeroDivisionError
   \<and> material_model 0 (1/10) (2/5) = Inl ZeroDivisionError
   \<and> main_setup 16 0 (1/10) (2/5) = Inl ZeroDivisionError
   \<and> material_model 1 (1/10) 0 = Inl ZeroDivisionError
   \<and> (\<exists>C e1 e2 e3. material_model 1 (1/10) (2/5) = Inr (C, e1, e2, e3)
          \<and> C 0 0 0 0 = 4 \<and> C 0 0 1 1 = 2 \<and> e1 0 0 = 5 / 4 \<and> e2 0 0 = 1 / 4)"
  using material_model_error_iff [of "-1" "1/10" "2/5"]
    material_model_error_iff [of 0 "1/10" "2/5" 16]
    material_model_error_iff [of 1 "1/10" 0]
    material_model_error_iff [of 1 "1/10" "2/5"]
  by (simp add: stiffness_entry_def np_array3_def)

section \<open>Properties of the kernel\<close>

lemma stiffness_entry_transpose_both:
  "stiffness_entry c11 c12 c44 p q i j = stiffness_entry c11 c12 c44 q p j i"
  by (auto simp: stiffness_entry_def)

lemma stiffness_entry_major:
  "stiffness_entry c11 c12 c44 i j k l = stiffness_entry c11 c12 c44 k l i j"
  by (auto simp: stiffness_entry_def)

lemma stiffness_tensor_transpose_both:
  assumes "precompute_stiffness_tensor a = Inr C"
  shows "C p q i j = C q p j i"
  using precompute_stiffness_tensor_entry(2) [OF assms, of p q i j]
    precompute_stiffness_tensor_entry(2) [OF assms, of q p j i]
    stiffness_entry_transpose_both [of "4 / a" "2 / a" 1 p q i j]
  by (simp add: conj_commute conj_left_commute)

lemma stiffness_tensor_major:
  assumes "precompute_stiffness_tensor a = Inr C"
  shows "C i j k l = C k l i j"
  using precompute_stiffness_tensor_entry(2) [OF assms, of i j k l]
    precompute_stiffness_tensor_entry(2) [OF assms, of k l i j]
    stiffness_entry_major [of "4 / a" "2 / a" 1 i j k l]
  by (simp add: conj_commute conj_left_commute)

lemma nat_less_3_cases: "(i::nat) < 3 \<Longrightarrow> i = 0 \<or> i = 1 \<or> i = 2"
  by arith

lemma sum3_delta:
  fixes g :: "nat \<Rightarrow> real"
  assumes "i < 3"
  shows "sum3 (\<lambda>m. if i = m then g m else 0) = g i"
proof -
  from assms have "i = 0 \<or> i = 1 \<or> i = 2" by arith
  then show ?thesis by (auto simp: sum3_def)
qed

lemma acoustic_ijmn_off_diagonal:
  assumes "precompute_stiffness_tensor a = Inr C" and "i < 3" and "j < 3" and "i \<noteq> j"
  shows "acoustic_ijmn C n i j = n i * n j"
proof -
  have "C i j m n' * n m * n n' = (if i = m then (if j = n' then n m * n n' else 0) else 0)"
    if "m < 3" "n' < 3" for m n'
    using that assms(2-4)
    by (simp add: precompute_stiffness_tensor_entry(2) [OF assms(1)] stiffness_entry_def)
  then have "acoustic_ijmn C n i j =
      sum3 (\<lambda>m. sum3 (\<lambda>n'. if i = m then (if j = n' then n m * n n' else 0) else 0))"
    by (simp add: acoustic_ijmn_def sum3_def)
  also have "\<dots> = sum3 (\<lambda>m. if i = m then sum3 (\<lambda>n'. if j = n' then n m * n n' else 0) else 0)"
    by (simp add: sum3_def)
  also have "\<dots> = sum3 (\<lambda>m. if i = m then n m * n j else 0)"
    by (simp add: sum3_delta [OF assms(3)] cong: if_cong)
  also have "\<dots> = n i * n j"
    by (rule sum3_delta [OF assms(2)])
  finally show ?thesis .
qed

lemma acoustic_ijmn_symmetric:
  assumes "precompute_stiffness_tensor a = Inr C"
  shows "acoustic_ijmn C n i j = acoustic_ijmn C n j i"
proof (cases "i < 3 \<and> j < 3 \<and> i \<noteq> j")
  case True
  then show ?thesis
    using acoustic_ijmn_off_diagonal [OF assms, of i j n]
      acoustic_ijmn_off_diagonal [OF assms, of j i n]
    by simp
next
  case False
  then consider "i = j" | "\<not> i < 3" | "\<not> j < 3" by blast
  then show ?thesis
  proof cases
    case 1
    then show ?thesis by simp
  next
    case 2
    then show ?thesis
      by (simp add: acoustic_ijmn_def sum3_def precompute_stiffness_tensor_entry(2) [OF assms])
  next
    case 3
    then show ?thesis
      by (simp add: acoustic_ijmn_def sum3_def precompute_stiffness_tensor_entry(2) [OF assms])
  qed
qed

lemma acoustic_imjn_symmetric:
  assumes "precompute_stiffness_tensor a = Inr C"
  shows "acoustic_imjn C n i j = acoustic_imjn C n j i"
proof -
  have "C i m j n' = C j n' i m" for m n'
    by (rule stiffness_tensor_major [OF assms])
  then show ?thesis
    by (simp add: acoustic_imjn_def sum3_def algebra_simps)
qed

lemma cofactor_symmetric:
  assumes "\<And>i j. M i j = M j i"
  shows "cofactor M r c = cofactor M c r"
proof -
  have "M ((r + 1) mod 3) ((c + 1) mod 3) = M ((c + 1) mod 3) ((r + 1) mod 3)"
    "M ((r + 2) mod 3) ((c + 2) mod 3) = M ((c + 2) mod 3) ((r + 2) mod 3)"
    "M ((r + 1) mod 3) ((c + 2) mod 3) = M ((c + 2) mod 3) ((r + 1) mod 3)"
    "M ((r + 2) mod 3) ((c + 1) mod 3) = M ((c + 1) mod 3) ((r + 2) mod 3)"
    by (rule assms)+
  then show ?thesis
    unfolding cofactor_def by (simp add: mult.commute)
qed

lemma greens_operator_symmetric:
  assumes "\<And>i j. M i j = M j i"
  shows "greens_operator M i j = greens_operator M j i"
  using cofactor_symmetric [OF assms, where r = i and c = j]
  by (simp add: greens_operator_def np_linalg_inv_def conj_commute)

lemma contraction_swap:
  fixes G :: mat3 and v w :: "nat \<Rightarrow> real"
  assumes "\<And>q r. G q r = G r q"
  shows "sum3 (\<lambda>r. sum3 (\<lambda>q. v q * G q r) * w r) = sum3 (\<lambda>r. sum3 (\<lambda>q. w q * G q r) * v r)"
proof -
  have "G 1 0 = G 0 1" "G 2 0 = G 0 2" "G 2 1 = G 1 2"
    by (rule assms)+
  then show ?thesis
    by (simp add: sum3_def algebra_simps)
qed

lemma stiffness_tensor_reversal:
  assumes "precompute_stiffness_tensor a = Inr C"
  shows "C i j k l = C l k j i"
  using stiffness_tensor_major [OF assms, of i j k l]
    stiffness_tensor_transpose_both [OF assms, of k l i j]
  by simp

lemma sum3_factor:
  fixes f h :: "nat \<Rightarrow> real"
  shows "sum3 (\<lambda>a. sum3 (\<lambda>b. g * f a * h b)) = g * sum3 f * sum3 h"
  by (simp add: sum3_def algebra_simps)

lemma bilinear_swap:
  fixes G :: mat3 and v w :: "nat \<Rightarrow> real"
  assumes "\<And>q r. G q r = G r q"
  shows "sum3 (\<lambda>m. sum3 (\<lambda>n. G m n * v m * w n)) = sum3 (\<lambda>m. sum3 (\<lambda>n. G m n * w m * v n))"
proof -
  have "G 1 0 = G 0 1" "G 2 0 = G 0 2" "G 2 1 = G 1 2"
    by (rule assms)+
  then show ?thesis
    by (simp add: sum3_def algebra_simps)
qed

lemma kernel_entry_sporc_reversal:
  assumes C: "precompute_stiffness_tensor a = Inr C"
  shows "kernel_entry_sporc C q i j k l = kernel_entry_sporc C q l k j i"
proof -
  define G where "G = greens_operator (acoustic_ijmn C (k_unit_of q))"
  have Gsym: "G m n = G n m" for m n
    unfolding G_def
    by (rule greens_operator_symmetric) (rule acoustic_ijmn_symmetric [OF C])
  have tb: "C p r x y = C r p y x" for p r x y
    by (rule stiffness_tensor_transpose_both [OF C])
  have V: "sum3 (\<lambda>a. C a m l k) = sum3 (\<lambda>b. C m b k l)" for m
    unfolding sum3_def using tb [of 0 m l k] tb [of 1 m l k] tb [of 2 m l k] by simp
  have W: "sum3 (\<lambda>b. C n b j i) = sum3 (\<lambda>a. C a n i j)" for n
    unfolding sum3_def using tb [of n 0 j i] tb [of n 1 j i] tb [of n 2 j i] by simp
  have "sum3 (\<lambda>m. sum3 (\<lambda>n. sum3 (\<lambda>a. sum3 (\<lambda>b. G m n * C a m i j * C n b k l))))
        = sum3 (\<lambda>m. sum3 (\<lambda>n. G m n * sum3 (\<lambda>a. C a m i j) * sum3 (\<lambda>b. C n b k l)))"
    by (simp only: sum3_factor)
  also have "\<dots> = sum3 (\<lambda>m. sum3 (\<lambda>n. G m n * sum3 (\<lambda>b. C m b k l) * sum3 (\<lambda>a. C a n i j)))"
    by (rule bilinear_swap) (rule Gsym)
  also have "\<dots> = sum3 (\<lambda>m. sum3 (\<lambda>n. G m n * sum3 (\<lambda>a. C a m l k) * sum3 (\<lambda>b. C n b j i)))"
    by (simp only: V W)
  also have "\<dots> = sum3 (\<lambda>m. sum3 (\<lambda>n. sum3 (\<lambda>a. sum3 (\<lambda>b. G m n * C a m l k * C n b j i))))"
    by (simp only: sum3_factor)
  finally have T: "sum3 (\<lambda>m. sum3 (\<lambda>n. sum3 (\<lambda>a. sum3 (\<lambda>b. G m n * C a m i j * C n b k l))))
    = sum3 (\<lambda>m. sum3 (\<lambda>n. sum3 (\<lambda>a. sum3 (\<lambda>b. G m n * C a m l k * C n b j i))))" .
  have "C i j k l = C l k j i"
    by (rule stiffness_tensor_reversal [OF C])
  with T show ?thesis
    by (simp add: kernel_entry_sporc_def Let_def G_def [symmetric] conj_commute conj_left_commute)
qed

lemma kernel_entry_mac5_reversal:
  assumes C: "precompute_stiffness_tensor a = Inr C"
  shows "kernel_entry_mac5 C q i j k l = kernel_entry_mac5 C q l k j i"
proof -
  define n where "n = k_unit_of q"
  define G where "G = greens_operator (acoustic_imjn C n)"
  have Gsym: "G m r = G r m" for m r
    unfolding G_def
    by (rule greens_operator_symmetric) (rule acoustic_imjn_symmetric [OF C])
  have tb: "C p r x y = C r p y x" for p r x y
    by (rule stiffness_tensor_transpose_both [OF C])
  have V: "sum3 (\<lambda>p. n p * C p m l k) = sum3 (\<lambda>s. C m s k l * n s)" for m
    unfolding sum3_def using tb [of 0 m l k] tb [of 1 m l k] tb [of 2 m l k]
    by (simp add: mult.commute)
  have W: "sum3 (\<lambda>s. C r s j i * n s) = sum3 (\<lambda>p. n p * C p r i j)" for r
    unfolding sum3_def using tb [of r 0 j i] tb [of r 1 j i] tb [of r 2 j i]
    by (simp add: mult.commute)
  have "sum3 (\<lambda>r. sum3 (\<lambda>m. sum3 (\<lambda>p. n p * C p m i j) * G m r) * sum3 (\<lambda>s. C r s k l * n s))
      = sum3 (\<lambda>r. sum3 (\<lambda>m. sum3 (\<lambda>s. C m s k l * n s) * G m r) * sum3 (\<lambda>p. n p * C p r i j))"
    by (rule contraction_swap) (rule Gsym)
  also have "\<dots> = sum3 (\<lambda>r. sum3 (\<lambda>m. sum3 (\<lambda>p. n p * C p m l k) * G m r) * sum3 (\<lambda>s. C r s j i * n s))"
    by (simp only: V W)
  finally have T: "sum3 (\<lambda>r. sum3 (\<lambda>m. sum3 (\<lambda>p. n p * C p m i j) * G m r) * sum3 (\<lambda>s. C r s k l * n s))
      = sum3 (\<lambda>r. sum3 (\<lambda>m. sum3 (\<lambda>p. n p * C p m l k) * G m r) * sum3 (\<lambda>s. C r s j i * n s))" .
  have "C i j k l = C l k j i"
    by (rule stiffness_tensor_reversal [OF C])
  with T show ?thesis
    by (simp add: kernel_entry_mac5_def Let_def G_def [symmetric] n_def [symmetric]
        conj_commute conj_left_commute)
qed

lemma norm3_q_grid_origin: "norm3 (q_grid_of N (0, 0, 0)) = 0"
  by (simp add: norm3_def q_grid_of_def fftfreq_def Let_def)

subsection \<open>The kernel at grid index (1, 0, 0) of the grid of side 2\<close>

lemma precompute_stiffness_tensor_1: "precompute_stiffness_tensor 1 = Inr stiffness_aniso1"
  by (simp add: precompute_stiffness_tensor_def py_truediv_def stiffness_aniso1_def)

lemma stiffness_aniso1_apply:
  "stiffness_aniso1 i j k l =
     (if i < 3 \<and> j < 3 \<and> k < 3 \<and> l < 3 then stiffness_entry 4 2 1 i j k l else 0)"
  by (simp add: stiffness_aniso1_def)

lemma minus_x_simps: "minus_x 0 = - 1" "minus_x 2 = 0" "minus_x (Suc 0) = 0"
  by (simp_all add: minus_x_def)

lemma q_grid_2_100: "q_grid_of 2 (Suc 0, 0, 0) = (\<lambda>c. if c = 0 then - pi else 0)"
  by (auto simp: q_grid_of_def fftfreq_def Let_def fun_eq_iff)

lemma norm3_q_grid_2_100: "norm3 (q_grid_of 2 (Suc 0, 0, 0)) = pi"
  by (simp add: q_grid_2_100 norm3_def)

lemma k_unit_q_grid_2_100: "k_unit_of (q_grid_of 2 (Suc 0, 0, 0)) = minus_x"
  by (auto simp: q_grid_2_100 k_unit_of_def norm3_def minus_x_def fun_eq_iff)

lemma acoustic_ijmn_minus_x:
  "acoustic_ijmn stiffness_aniso1 minus_x i j =
     (if i < 3 \<and> j < 3 \<and> i = j then (if i = 0 then 4 else 2) else 0)"
  by (simp add: acoustic_ijmn_def stiffness_aniso1_apply sum3_def stiffness_entry_def
      minus_x_simps)

lemma det_acoustic_ijmn_minus_x: "np_linalg_det (acoustic_ijmn stiffness_aniso1 minus_x) = 16"
  by (simp add: np_linalg_det_def cofactor_def sum3_def acoustic_ijmn_minus_x)

lemma greens_ijmn_minus_x:
  "greens_operator (acoustic_ijmn stiffness_aniso1 minus_x) 0 0 = 1/4"
  "greens_operator (acoustic_ijmn stiffness_aniso1 minus_x) 0 (Suc 0) = 0"
  "greens_operator (acoustic_ijmn stiffness_aniso1 minus_x) 0 2 = 0"
  "greens_operator (acoustic_ijmn stiffness_aniso1 minus_x) (Suc 0) 0 = 0"
  "greens_operator (acoustic_ijmn stiffness_aniso1 minus_x) (Suc 0) (Suc 0) = 1/2"
  "greens_operator (acoustic_ijmn stiffness_aniso1 minus_x) (Suc 0) 2 = 0"
  "greens_operator (acoustic_ijmn stiffness_aniso1 minus_x) 2 0 = 0"
  "greens_operator (acoustic_ijmn stiffness_aniso1 minus_x) 2 (Suc 0) = 0"
  "greens_operator (acoustic_ijmn stiffness_aniso1 minus_x) 2 2 = 1/2"
  by (simp_all add: greens_operator_def det_acoustic_ijmn_minus_x np_linalg_inv_def
      cofactor_def acoustic_ijmn_minus_x)

lemma acoustic_imjn_minus_x:
  "acoustic_imjn stiffness_aniso1 minus_x i j =
     (if i < 3 \<and> j < 3 \<and> i = j then (if i = 0 then 4 else 1) else 0)"
  by (simp add: acoustic_imjn_def stiffness_aniso1_apply sum3_def stiffness_entry_def
      minus_x_simps)

lemma det_acoustic_imjn_minus_x: "np_linalg_det (acoustic_imjn stiffness_aniso1 minus_x) = 4"
  by (simp add: np_linalg_det_def cofactor_def sum3_def acoustic_imjn_minus_x)

lemma greens_imjn_minus_x:
  "greens_operator (acoustic_imjn stiffness_aniso1 minus_x) 0 0 = 1/4"
  "greens_operator (acoustic_imjn stiffness_aniso1 minus_x) 0 (Suc 0) = 0"
  "greens_operator (acoustic_imjn stiffness_aniso1 minus_x) 0 2 = 0"
  "greens_operator (acoustic_imjn stiffness_aniso1 minus_x) (Suc 0) 0 = 0"
  "greens_operator (acoustic_imjn stiffness_aniso1 minus_x) (Suc 0) (Suc 0) = 1"
  "greens_operator (acoustic_imjn stiffness_aniso1 minus_x) (Suc 0) 2 = 0"
  "greens_operator (acoustic_imjn stiffness_aniso1 minus_x) 2 0 = 0"
  "greens_operator (acoustic_imjn stiffness_aniso1 minus_x) 2 (Suc 0) = 0"
  "greens_operator (acoustic_imjn stiffness_aniso1 minus_x) 2 2 = 1"
  by (simp_all add: greens_operator_def det_acoustic_imjn_minus_x np_linalg_inv_def
      cofactor_def acoustic_imjn_minus_x)

lemma kernel_entry_sporc_2_100:
  "kernel_entry_sporc stiffness_aniso1 (q_grid_of 2 (Suc 0, 0, 0)) 0 0 0 0 = - 4"
  "kernel_entry_sporc stiffness_aniso1 (q_grid_of 2 (Suc 0, 0, 0)) 0 (Suc 0) (Suc 0) 0 = - 1/2"
  "kernel_entry_sporc stiffness_aniso1 (q_grid_of 2 (Suc 0, 0, 0)) (Suc 0) 0 0 (Suc 0) = - 1/4"
  by (simp_all add: kernel_entry_sporc_def Let_def k_unit_q_grid_2_100 sum3_def
      greens_ijmn_minus_x stiffness_aniso1_apply stiffness_entry_def)

lemma kernel_entry_mac5_2_100:
  "kernel_entry_mac5 stiffness_aniso1 (q_grid_of 2 (Suc 0, 0, 0)) 0 (Suc 0) (Suc 0) 0 = - 1"
  "kernel_entry_mac5 stiffness_aniso1 (q_grid_of 2 (Suc 0, 0, 0)) (Suc 0) 0 0 (Suc 0) = 0"
  by (simp_all add: kernel_entry_mac5_def Let_def k_unit_q_grid_2_100 sum3_def
      greens_imjn_minus_x minus_x_simps stiffness_aniso1_apply stiffness_entry_def)

lemma kernel_entry_spec_2_100:
  "kernel_entry_spec stiffness_aniso1 minus_x
     (greens_operator (acoustic_ijmn stiffness_aniso1 minus_x)) 0 0 0 0 = 0"
  by (simp add: kernel_entry_spec_def greens_ijmn_minus_x sum3_def stiffness_aniso1_apply
      stiffness_entry_def minus_x_simps)

lemma kernel_sporc_at_2_100:
  "snd (precompute_reciprocal_space_and_kernel_sporc 2 C) (Suc 0, 0, 0)
     = kernel_entry_sporc C (q_grid_of 2 (Suc 0, 0, 0))"
  by (simp add: precompute_reciprocal_space_and_kernel_sporc_def Let_def norm3_q_grid_2_100)

lemma kernel_mac5_at_2_100:
  "snd (precompute_reciprocal_space_and_kernel_mac5 2 C) (Suc 0, 0, 0)
     = kernel_entry_mac5 C (q_grid_of 2 (Suc 0, 0, 0))"
  by (simp add: precompute_reciprocal_space_and_kernel_mac5_def Let_def norm3_q_grid_2_100)

subsection \<open>The kernel of \<open>mac5.py\<close> against the specification's formula\<close>

lemma kernel_entry_mac5_eq_spec:
  assumes "i < 3" "j < 3" "k < 3" "l < 3"
  shows "kernel_entry_mac5 C q i j k l =
         kernel_entry_spec C (k_unit_of q) (greens_operator (acoustic_imjn C (k_unit_of q))) i j k l"
  using assms
  by (simp add: kernel_entry_mac5_def kernel_entry_spec_def Let_def sum3_def algebra_simps)

text \<open>
  The kernel builder of \<open>mac5.py\<close> and \<open>mac6.py\<close> does what C1 says: at every grid point of
  nonzero norm the entry is \<open>C - (n \<cdot> C) \<cdot> G \<cdot> (C \<cdot> n)\<close> with \<open>G\<close> the inverse of the acoustic
  tensor, or the zero matrix when its determinant is zero.
\<close>

theorem kernel_mac5_refines_spec:
  assumes "qx < N" and "qy < N" and "qz < N"
    and "norm3 (q_grid_of N (qx, qy, qz)) \<noteq> 0"
    and "i < 3" and "j < 3" and "k < 3" and "l < 3"
  shows "snd (precompute_reciprocal_space_and_kernel_mac5 N C) (qx, qy, qz) i j k l =
         (let n = k_unit_of (q_grid_of N (qx, qy, qz));
              G_inv = acoustic_imjn C n;
              G = (if np_linalg_det G_inv \<noteq> 0 then np_linalg_inv G_inv else (\<lambda>i j. 0))
          in kernel_entry_spec C n G i j k l)"
  using assms kernel_entry_mac5_eq_spec [of i j k l C "q_grid_of N (qx, qy, qz)"]
  by (simp add: precompute_reciprocal_space_and_kernel_mac5_def Let_def greens_operator_def)

theorem kernel_mac5_refines_spec_witness:
  "snd (precompute_reciprocal_space_and_kernel_mac5 2 stiffness_aniso1) (1, 0, 0) 0 1 1 0 =
     kernel_entry_spec stiffness_aniso1 minus_x
       (greens_operator (acoustic_imjn stiffness_aniso1 minus_x)) 0 1 1 0"
  using kernel_mac5_refines_spec [of 1 2 0 0 0 1 1 0 stiffness_aniso1]
  by (simp add: norm3_q_grid_2_100 k_unit_q_grid_2_100 Let_def greens_operator_def)

text \<open>
  C1 on \<open>sporc_mpi6.py\<close> (and \<open>mac1.py\<close>, \<open>debug.py\<close>): the kernel entry is not the formula
  of the claim. For \<open>anisoPar = 1\<close>, side \<open>2\<close> and grid index \<open>(1, 0, 0)\<close> the wavevector
  is \<open>(- pi, 0, 0)\<close>, its direction \<open>(-1, 0, 0)\<close>; the code stores \<open>B[0,0,0,0] = -4\<close>, the
  formula \<open>C - (n \<cdot> C) \<cdot> G \<cdot> (C \<cdot> n)\<close> with the code's own \<open>G\<close> gives \<open>0\<close>.
\<close>

theorem kernel_sporc_not_spec_formula:
  "precompute_stiffness_tensor 1 = Inr stiffness_aniso1
   \<and> norm3 (fst (precompute_reciprocal_space_and_kernel_sporc 2 stiffness_aniso1) (1, 0, 0)) = pi
   \<and> k_unit_of (fst (precompute_reciprocal_space_and_kernel_sporc 2 stiffness_aniso1) (1, 0, 0))
       = minus_x
   \<and> snd (precompute_reciprocal_space_and_kernel_sporc 2 stiffness_aniso1) (1, 0, 0) 0 0 0 0 = - 4
   \<and> kernel_entry_spec stiffness_aniso1 minus_x
        (greens_operator (acoustic_ijmn stiffness_aniso1 minus_x)) 0 0 0 0 = 0"
  by (simp add: precompute_stiffness_tensor_1 kernel_sporc_at_2_100 kernel_entry_sporc_2_100
      kernel_entry_spec_2_100)
    (simp add: precompute_reciprocal_space_and_kernel_sporc_def Let_def norm3_q_grid_2_100
      k_unit_q_grid_2_100)

text \<open>
  C8, as the claim states it, fails in both kernel builders: at grid index \<open>(1, 0, 0)\<close> of
  the grid of side \<open>2\<close>, for \<open>anisoPar = 1\<close>, the entries \<open>B[0,1,1,0]\<close> and \<open>B[1,0,0,1]\<close>, which
  the swap of \<open>(i,j)\<close> with \<open>(k,l)\<close> exchanges, are \<open>-1\<close> and \<open>0\<close> in \<open>mac5.py\<close> and \<open>-1/2\<close> and
  \<open>-1/4\<close> in \<open>sporc_mpi6.py\<close>.
\<close>

theorem kernel_pair_swap_counterexample:
  "precompute_stiffness_tensor 1 = Inr stiffness_aniso1
   \<and> norm3 (q_grid_of 2 (1, 0, 0)) = pi
   \<and> snd (precompute_reciprocal_space_and_kernel_mac5 2 stiffness_aniso1) (1, 0, 0) 0 1 1 0 = - 1
   \<and> snd (precompute_reciprocal_space_and_kernel_mac5 2 stiffness_aniso1) (1, 0, 0) 1 0 0 1 = 0
   \<and> snd (precompute_reciprocal_space_and_kernel_sporc 2 stiffness_aniso1) (1, 0, 0) 0 1 1 0 = - 1/2
   \<and> snd (precompute_reciprocal_space_and_kernel_sporc 2 stiffness_aniso1) (1, 0, 0) 1 0 0 1 = - 1/4"
  by (simp add: precompute_stiffness_tensor_1 norm3_q_grid_2_100 kernel_sporc_at_2_100
      kernel_mac5_at_2_100 kernel_entry_sporc_2_100 kernel_entry_mac5_2_100)

text \<open>
  C8, amended. In both kernel builders, for every anisotropy parameter \<open>a > 0\<close>: \<open>B\<close> at the
  zero wavevector (grid index \<open>(0, 0, 0)\<close>) is the zero tensor, and every entry \<open>B(q)\<close> is
  symmetric under the swap of the index pairs combined with the reversal of each pair,
  \<open>B[i,j,k,l] = B[l,k,j,i]\<close>; on the entries a diagonal strain meets this is the symmetry
  of the claim, \<open>B[i,i,k,k] = B[k,k,i,i]\<close>.
\<close>

theorem kernel_zero_and_reversal_symmetry:
  assumes "0 < a" and "precompute_stiffness_tensor a = Inr C"
  shows "snd (precompute_reciprocal_space_and_kernel_sporc N C) (0, 0, 0) = (\<lambda>i j k l. 0)
       \<and> snd (precompute_reciprocal_space_and_kernel_mac5 N C) (0, 0, 0) = (\<lambda>i j k l. 0)
       \<and> snd (precompute_reciprocal_space_and_kernel_sporc N C) q i j k l
           = snd (precompute_reciprocal_space_and_kernel_sporc N C) q l k j i
       \<and> snd (precompute_reciprocal_space_and_kernel_mac5 N C) q i j k l
           = snd (precompute_reciprocal_space_and_kernel_mac5 N C) q l k j i
       \<and> snd (precompute_reciprocal_space_and_kernel_sporc N C) q i i k k
           = snd (precompute_reciprocal_space_and_kernel_sporc N C) q k k i i
       \<and> snd (precompute_reciprocal_space_and_kernel_mac5 N C) q i i k k
           = snd (precompute_reciprocal_space_and_kernel_mac5 N C) q k k i i"
proof -
  obtain qx qy qz where q: "q = (qx, qy, qz)" by (cases q) auto
  have z1: "snd (precompute_reciprocal_space_and_kernel_sporc N C) (0, 0, 0) = (\<lambda>i j k l. 0)"
    by (simp add: precompute_reciprocal_space_and_kernel_sporc_def Let_def norm3_q_grid_origin)
  have z2: "snd (precompute_reciprocal_space_and_kernel_mac5 N C) (0, 0, 0) = (\<lambda>i j k l. 0)"
    by (simp add: precompute_reciprocal_space_and_kernel_mac5_def Let_def norm3_q_grid_origin)
  have s1: "snd (precompute_reciprocal_space_and_kernel_sporc N C) q i' j' k' l'
           = snd (precompute_reciprocal_space_and_kernel_sporc N C) q l' k' j' i'" for i' j' k' l'
    using kernel_entry_sporc_reversal [OF assms(2), of "q_grid_of N (qx, qy, qz)" i' j' k' l']
    by (simp add: precompute_reciprocal_space_and_kernel_sporc_def Let_def q)
  have s2: "snd (precompute_reciprocal_space_and_kernel_mac5 N C) q i' j' k' l'
           = snd (precompute_reciprocal_space_and_kernel_mac5 N C) q l' k' j' i'" for i' j' k' l'
    using kernel_entry_mac5_reversal [OF assms(2), of "q_grid_of N (qx, qy, qz)" i' j' k' l']
    by (simp add: precompute_reciprocal_space_and_kernel_mac5_def Let_def q)
  from z1 z2 s1 [of i j k l] s2 [of i j k l] s1 [of i i k k] s2 [of i i k k]
  show ?thesis by simp
qed

theorem kernel_zero_and_reversal_symmetry_witness:
  "snd (precompute_reciprocal_space_and_kernel_mac5 2 stiffness_aniso1) (0, 0, 0) = (\<lambda>i j k l. 0)
   \<and> snd (precompute_reciprocal_space_and_kernel_sporc 2 stiffness_aniso1) (0, 0, 0) = (\<lambda>i j k l. 0)
   \<and> snd (precompute_reciprocal_space_and_kernel_mac5 2 stiffness_aniso1) (1, 0, 0) 0 0 0 1
       = snd (precompute_reciprocal_space_and_kernel_mac5 2 stiffness_aniso1) (1, 0, 0) 1 0 0 0
   \<and> snd (precompute_reciprocal_space_and_kernel_sporc 2 stiffness_aniso1) (1, 0, 0) 0 0 0 1
       = snd (precompute_reciprocal_space_and_kernel_sporc 2 stiffness_aniso1) (1, 0, 0) 1 0 0 0"
  using kernel_zero_and_reversal_symmetry [of 1 stiffness_aniso1 2 "(1, 0, 0)" 0 0 0 1]
  by (simp add: precompute_stiffness_tensor_1)

section \<open>Properties of the energy evaluator\<close>

lemma foldl_add_sum_list:
  fixes g :: "'a \<Rightarrow> real"
  shows "foldl (\<lambda>acc x. acc + g x) a xs = a + sum_list (map g xs)"
  by (induction xs arbitrary: a) (simp_all add: add.assoc)

lemma foldl_skip_sum_list:
  fixes g :: "'a \<Rightarrow> real"
  shows "foldl (\<lambda>acc x. if P x then acc else acc + g x) a xs
         = a + sum_list (map (\<lambda>x. if P x then 0 else g x) xs)"
proof -
  have "(\<lambda>acc x. if P x then acc else acc + g x) = (\<lambda>acc x. acc + (if P x then 0 else g x))"
    by (auto simp: fun_eq_iff)
  then show ?thesis
    by (simp only: foldl_add_sum_list)
qed

lemma local_energy_loop_sum_list:
  "local_energy_loop N q_grid B ft rank size'
     = sum_list (map (slab_energy N q_grid B ft) (py_range rank N size'))"
proof -
  have inner: "foldl (\<lambda>local_energy qz_idx.
           if np_allclose_zero (q_grid (qx, qy, qz_idx)) then local_energy
           else local_energy + energy_density B ft (qx, qy, qz_idx)) acc [0..<N]
        = acc + sum_list (map (\<lambda>qz_idx.
            if np_allclose_zero (q_grid (qx, qy, qz_idx)) then 0
            else energy_density B ft (qx, qy, qz_idx)) [0..<N])" for qx qy acc
    by (rule foldl_skip_sum_list)
  show ?thesis
    unfolding local_energy_loop_def inner foldl_add_sum_list slab_energy_def by simp
qed

lemma py_range_Nil: "step = 0 \<or> stop \<le> start \<Longrightarrow> py_range start stop step = []"
  by (subst py_range.simps) simp

lemma py_range_Cons:
  "0 < step \<Longrightarrow> start < stop \<Longrightarrow>
   py_range start stop step = start # py_range (start + step) stop step"
  by (subst py_range.simps) simp

lemma set_py_range:
  assumes "0 < step"
  shows "set (py_range start stop step)
         = {i. start \<le> i \<and> i < stop \<and> i mod step = start mod step}"
  using assms
proof (induction start stop step rule: py_range.induct)
  case (1 start stop step)
  show ?case
  proof (cases "stop \<le> start")
    case True
    then show ?thesis by (auto simp: py_range_Nil)
  next
    case False
    with 1 have IH: "set (py_range (start + step) stop step)
         = {i. start + step \<le> i \<and> i < stop \<and> i mod step = (start + step) mod step}"
      by simp
    have far: "start + step \<le> i" if "start \<le> i" "i \<noteq> start" "i mod step = start mod step" for i
    proof -
      from that have "start < i" by simp
      from that(3) have "step dvd (i - start)"
        by (metis that(1) mod_eq_dvd_iff_nat)
      with \<open>start < i\<close> have "step \<le> i - start"
        by (simp add: dvd_imp_le)
      with \<open>start < i\<close> show ?thesis by simp
    qed
    have "py_range start stop step = start # py_range (start + step) stop step"
      using False 1(2) by (simp add: py_range_Cons)
    then have "set (py_range start stop step)
        = insert start {i. start + step \<le> i \<and> i < stop \<and> i mod step = (start + step) mod step}"
      using IH by simp
    also have "\<dots> = {i. start \<le> i \<and> i < stop \<and> i mod step = start mod step}"
      using False 1(2) far by auto
    finally show ?thesis .
  qed
qed

lemma distinct_py_range: "0 < step \<Longrightarrow> distinct (py_range start stop step)"
proof (induction start stop step rule: py_range.induct)
  case (1 start stop step)
  show ?case
  proof (cases "stop \<le> start")
    case True
    then show ?thesis by (simp add: py_range_Nil)
  next
    case False
    with 1 have "distinct (py_range (start + step) stop step)" by simp
    moreover have "start \<notin> set (py_range (start + step) stop step)"
      using 1(2) by (simp add: set_py_range)
    moreover have "py_range start stop step = start # py_range (start + step) stop step"
      using False 1(2) by (simp add: py_range_Cons)
    ultimately show ?thesis by simp
  qed
qed

lemma sum_list_py_range:
  fixes g :: "nat \<Rightarrow> real"
  assumes "0 < W" and "r < W"
  shows "sum_list (map g (py_range r N W)) = sum g {i \<in> {..<N}. i mod W = r}"
proof -
  have "sum_list (map g (py_range r N W)) = sum g (set (py_range r N W))"
    by (rule sum_list_distinct_conv_sum_set [OF distinct_py_range [OF assms(1)]])
  also have "set (py_range r N W) = {i \<in> {..<N}. i mod W = r}"
    using assms by (auto simp: set_py_range)
  finally show ?thesis .
qed

lemma rank_partition:
  fixes g :: "nat \<Rightarrow> real"
  assumes "0 < W"
  shows "sum_list (map (\<lambda>r. sum_list (map g (py_range r N W))) [0..<W])
         = sum_list (map g [0..<N])"
proof -
  have "sum_list (map (\<lambda>r. sum_list (map g (py_range r N W))) [0..<W])
        = (\<Sum>r\<in>{..<W}. sum_list (map g (py_range r N W)))"
    by (simp add: sum_list_distinct_conv_sum_set atLeast_upt)
  also have "\<dots> = (\<Sum>r\<in>{..<W}. sum g {i \<in> {..<N}. i mod W = r})"
    using assms by (intro sum.cong refl sum_list_py_range) simp_all
  also have "\<dots> = sum g {..<N}"
    using assms by (intro sum.group) auto
  also have "\<dots> = sum_list (map g [0..<N])"
    by (simp add: sum_list_distinct_conv_sum_set atLeast_upt)
  finally show ?thesis .
qed

lemma py_range_step_1: "py_range start stop 1 = [start..<stop]"
proof (induction start stop "1::nat" rule: py_range.induct)
  case (1 start stop)
  show ?case
  proof (cases "stop \<le> start")
    case True
    then show ?thesis by (simp add: py_range_Nil)
  next
    case False
    then have "py_range start stop 1 = start # py_range (start + 1) stop 1"
      by (simp add: py_range_Cons)
    also have "\<dots> = start # [start + 1..<stop]" using 1 False by simp
    also have "\<dots> = [start..<stop]" using False by (simp add: upt_conv_Cons)
    finally show ?thesis .
  qed
qed


lemma py_range_step_Suc_0: "py_range start stop (Suc 0) = [start..<stop]"
  using py_range_step_1 [of start stop] by simp

lemma local_energy_loop_partition:
  assumes "0 < W"
  shows "sum_list (map (\<lambda>r. local_energy_loop N q_grid B ft r W) [0..<W])
         = local_energy_loop N q_grid B ft 0 1"
  by (simp add: local_energy_loop_sum_list rank_partition [OF assms] py_range_step_Suc_0)

lemma sum_list_divide:
  fixes f :: "nat \<Rightarrow> real"
  shows "sum_list (map (\<lambda>r. f r / c) xs) = sum_list (map f xs) / c"
  by (induction xs) (simp_all add: add_divide_distrib)

lemma mac5_energy_partition:
  assumes "0 < W"
  shows "mpi_allsum W (\<lambda>rank. compute_elastic_energy_mac5 N q_grid B ft rank W)
         = compute_elastic_energy_mac5 N q_grid B ft 0 1"
  by (simp add: mpi_allsum_def compute_elastic_energy_mac5_def sum_list_divide
      local_energy_loop_partition [OF assms])

text \<open>
  C5. For every worker count \<open>W \<ge> 1\<close>, every spectrum and every kernel, the sum over the
  ranks \<open>0 .. W - 1\<close> of the partial energies of \<open>compute_elastic_energy\<close> equals the
  energy a single worker computes (rank \<open>0\<close> of \<open>1\<close>), which is the sum over the whole grid
  of the contraction at every wavevector \<open>np.allclose\<close> does not skip; so the reduced
  energy does not depend on the worker count. This holds without normalisation
  (\<open>sporc_mpi6.py\<close>) and with the fixed divisors of \<open>mac5.py\<close> and \<open>mac6.py\<close>.
\<close>

theorem energy_partition_independent_of_worker_count:
  assumes "1 \<le> W"
  shows "mpi_allsum W (\<lambda>rank. compute_elastic_energy_sporc N q_grid B ft rank W)
           = compute_elastic_energy_sporc N q_grid B ft 0 1
       \<and> mpi_allsum W (\<lambda>rank. compute_elastic_energy_mac6 N q_grid B ft rank W)
           = compute_elastic_energy_mac6 N q_grid B ft 0 1
       \<and> mpi_allsum W (\<lambda>rank. compute_elastic_energy_mac5 N q_grid B ft rank W)
           = compute_elastic_energy_mac5 N q_grid B ft 0 1
       \<and> compute_elastic_energy_sporc N q_grid B ft 0 1
           = (\<Sum>qx<N. \<Sum>qy<N. \<Sum>qz<N.
                if np_allclose_zero (q_grid (qx, qy, qz)) then 0
                else energy_density B ft (qx, qy, qz))"
proof -
  from assms have W: "0 < W" by simp
  let ?g = "slab_energy N q_grid B ft"
  have part: "sum_list (map (\<lambda>r. local_energy_loop N q_grid B ft r W) [0..<W])
              = local_energy_loop N q_grid B ft 0 1"
    by (rule local_energy_loop_partition [OF W])
  have s: "mpi_allsum W (\<lambda>rank. compute_elastic_energy_sporc N q_grid B ft rank W)
           = compute_elastic_energy_sporc N q_grid B ft 0 1"
    by (simp add: mpi_allsum_def compute_elastic_energy_sporc_def part)
  have div: "sum_list (map (\<lambda>r. f r / c) xs) = sum_list (map f xs) / c"
    for f :: "nat \<Rightarrow> real" and c xs
    by (induction xs) (simp_all add: add_divide_distrib)
  have m6: "mpi_allsum W (\<lambda>rank. compute_elastic_energy_mac6 N q_grid B ft rank W)
           = compute_elastic_energy_mac6 N q_grid B ft 0 1"
    by (simp add: mpi_allsum_def compute_elastic_energy_mac6_def div part)
  have m5: "mpi_allsum W (\<lambda>rank. compute_elastic_energy_mac5 N q_grid B ft rank W)
           = compute_elastic_energy_mac5 N q_grid B ft 0 1"
    by (simp add: mpi_allsum_def compute_elastic_energy_mac5_def div part)
  have tot: "compute_elastic_energy_sporc N q_grid B ft 0 1
           = (\<Sum>qx<N. \<Sum>qy<N. \<Sum>qz<N.
                if np_allclose_zero (q_grid (qx, qy, qz)) then 0
                else energy_density B ft (qx, qy, qz))"
    by (simp add: compute_elastic_energy_sporc_def local_energy_loop_sum_list py_range_step_Suc_0
        slab_energy_def sum_list_distinct_conv_sum_set atLeast_upt)
  from s m6 m5 tot show ?thesis by blast
qed


theorem energy_partition_independent_of_worker_count_witness:
  "mpi_allsum 2 (\<lambda>rank. compute_elastic_energy_sporc 2 (q_grid_of 2) (\<lambda>q. stiffness_aniso1)
                    (\<lambda>q i j. 1) rank 2)
     = compute_elastic_energy_sporc 2 (q_grid_of 2) (\<lambda>q. stiffness_aniso1) (\<lambda>q i j. 1) 0 1
   \<and> mpi_allsum 4 (\<lambda>rank. compute_elastic_energy_mac6 2 (q_grid_of 2) (\<lambda>q. stiffness_aniso1)
                    (\<lambda>q i j. 1) rank 4)
     = compute_elastic_energy_mac6 2 (q_grid_of 2) (\<lambda>q. stiffness_aniso1) (\<lambda>q i j. 1) 0 1"
  using energy_partition_independent_of_worker_count
          [of 2 2 "q_grid_of 2" "\<lambda>q. stiffness_aniso1" "\<lambda>q i j. 1"]
        energy_partition_independent_of_worker_count
          [of 4 2 "q_grid_of 2" "\<lambda>q. stiffness_aniso1" "\<lambda>q i j. 1"]
  by simp

section \<open>Properties of the Monte Carlo step\<close>

lemma clipped_exponent_le: "clipped_exponent delta_E temperature \<le> 700"
  by (simp add: clipped_exponent_def Let_def)

lemma acceptance_probability_lower: "exp (- 700) \<le> acceptance_probability delta_E temperature"
  by (simp add: acceptance_probability_def clipped_exponent_le)

lemma acceptance_probability_pos: "0 < acceptance_probability delta_E temperature"
  by (simp add: acceptance_probability_def)

lemma monte_carlo_step_sporc_nth:
  assumes "r < length states"
  shows "monte_carlo_step_sporc N temperature q_grid B e1 e2 e3 states ds ! r
         = sporc_decide temperature (states ! r) (ds ! r)
             (sporc_propose N e1 e2 e3 (states ! r) (ds ! r))
             (mpi_allsum (length states)
                (\<lambda>r. compute_elastic_energy_sporc N q_grid B
                        (snd (snd (sporc_propose N e1 e2 e3 (states ! r) (ds ! r))))
                        r (length states)))"
  using assms by (simp add: monte_carlo_step_sporc_def Let_def)

lemma monte_carlo_step_mac5_nth:
  assumes "r < length states"
  shows "monte_carlo_step_mac5 N temperature q_grid B e1 e2 e3 states d ! r
         = (let root = mac5_decide temperature (states ! 0) d
                         (mac5_propose N e1 e2 e3 (states ! 0) d)
                         (mpi_allsum (length states)
                            (\<lambda>r. compute_elastic_energy_mac5 N q_grid B
                                    (snd (snd (mac5_propose N e1 e2 e3 (states ! 0) d)))
                                    r (length states)))
            in if r = 0 then root else (fst root, states ! r))"
  using assms by (simp add: monte_carlo_step_mac5_def Let_def)

lemma fst_sporc_decide:
  "fst (sporc_decide temperature st d tentative E_new)
   \<longleftrightarrow> uniform d < acceptance_probability (E_new - current_energy st) temperature"
  by (simp add: sporc_decide_def Let_def split: prod.splits)

lemma fst_mac5_decide:
  "fst (mac5_decide temperature st d tentative E_new)
   \<longleftrightarrow> uniform d < acceptance_probability (E_new - current_energy5 st) temperature"
  by (simp add: mac5_decide_def Let_def split: prod.splits)

text \<open>
  C2. With \<open>\<Delta>E = E_new - E_current\<close> the acceptance probability is \<open>1\<close> when \<open>\<Delta>E \<le> 0\<close> and
  \<open>exp (- min (\<Delta>E / T) 700)\<close> otherwise (for a temperature that is not zero), and a proposal
  is accepted if and only if the uniform draw is below that probability: on every rank
  of \<open>sporc_mpi6.py\<close>, with the rank's own draw and energy, and on every rank of \<open>mac5.py\<close>,
  with the draw and the energy of rank \<open>0\<close>. \<open>E_new\<close> is the reduced energy of the call.
\<close>

theorem metropolis_acceptance:
  "(temperature \<noteq> 0 \<longrightarrow>
      acceptance_probability delta_E temperature
        = (if delta_E \<le> 0 then 1 else exp (- min (delta_E / temperature) 700)))
   \<and> (r < length states \<longrightarrow>
        (fst (monte_carlo_step_sporc N temperature q_grid B e1 e2 e3 states ds ! r)
         \<longleftrightarrow> uniform (ds ! r)
               < acceptance_probability
                   (mpi_allsum (length states)
                      (\<lambda>r. compute_elastic_energy_sporc N q_grid B
                              (snd (snd (sporc_propose N e1 e2 e3 (states ! r) (ds ! r))))
                              r (length states))
                    - current_energy (states ! r)) temperature))
   \<and> (r < length states5 \<longrightarrow>
        (fst (monte_carlo_step_mac5 N temperature q_grid B e1 e2 e3 states5 d ! r)
         \<longleftrightarrow> uniform d
               < acceptance_probability
                   (mpi_allsum (length states5)
                      (\<lambda>r. compute_elastic_energy_mac5 N q_grid B
                              (snd (snd (mac5_propose N e1 e2 e3 (states5 ! 0) d)))
                              r (length states5))
                    - current_energy5 (states5 ! 0)) temperature))"
proof (intro conjI impI)
  assume "temperature \<noteq> 0"
  then show "acceptance_probability delta_E temperature
        = (if delta_E \<le> 0 then 1 else exp (- min (delta_E / temperature) 700))"
    by (simp add: acceptance_probability_def clipped_exponent_def Let_def)
next
  assume "r < length states"
  then show "fst (monte_carlo_step_sporc N temperature q_grid B e1 e2 e3 states ds ! r)
         \<longleftrightarrow> uniform (ds ! r)
               < acceptance_probability
                   (mpi_allsum (length states)
                      (\<lambda>r. compute_elastic_energy_sporc N q_grid B
                              (snd (snd (sporc_propose N e1 e2 e3 (states ! r) (ds ! r))))
                              r (length states))
                    - current_energy (states ! r)) temperature"
    by (simp only: monte_carlo_step_sporc_nth fst_sporc_decide)
next
  assume "r < length states5"
  then show "fst (monte_carlo_step_mac5 N temperature q_grid B e1 e2 e3 states5 d ! r)
         \<longleftrightarrow> uniform d
               < acceptance_probability
                   (mpi_allsum (length states5)
                      (\<lambda>r. compute_elastic_energy_mac5 N q_grid B
                              (snd (snd (mac5_propose N e1 e2 e3 (states5 ! 0) d)))
                              r (length states5))
                    - current_energy5 (states5 ! 0)) temperature"
    by (simp add: monte_carlo_step_mac5_nth fst_mac5_decide Let_def)
qed

theorem metropolis_acceptance_witness:
  "acceptance_probability (- 1) 2 = 1 \<and> acceptance_probability 0 2 = 1
   \<and> acceptance_probability 3 2 = exp (- (3 / 2))
   \<and> acceptance_probability 2000 2 = exp (- 700)
   \<and> fst (monte_carlo_step_mac5 1 2 (q_grid_of 1) (\<lambda>q. stiffness_aniso1)
            unit_strain_1 unit_strain_2 unit_strain_3
            [\<lparr>lattice_spins5 = (\<lambda>s. 2), strain_field5 = (\<lambda>s. unit_strain_2),
              current_energy5 = 0\<rparr>]
            \<lparr>site_drawn = (0, 0, 0), choice_index = 0, uniform = 1 / 2\<rparr> ! 0)"
proof -
  have E: "mpi_allsum (Suc 0) (\<lambda>r. compute_elastic_energy_mac5 (Suc 0) (q_grid_of (Suc 0)) B ft r (Suc 0)) = 0"
    for B ft
    by (simp add: mpi_allsum_def compute_elastic_energy_mac5_def local_energy_loop_sum_list
        py_range_step_Suc_0 slab_energy_def np_allclose_zero_def q_grid_of_def fftfreq_def Let_def)
  show ?thesis
    using metropolis_acceptance [of 2 "-1"] metropolis_acceptance [of 2 0]
      metropolis_acceptance [of 2 3] metropolis_acceptance [of 2 2000]
      metropolis_acceptance [of 2 0 0 "[]" 1 "q_grid_of 1" "\<lambda>q. stiffness_aniso1"
        unit_strain_1 unit_strain_2 unit_strain_3 "[]"
        "[\<lparr>lattice_spins5 = (\<lambda>s. 2), strain_field5 = (\<lambda>s. unit_strain_2), current_energy5 = 0\<rparr>]"
        "\<lparr>site_drawn = (0, 0, 0), choice_index = 0, uniform = 1 / 2\<rparr>"]
    by (simp add: E)
qed

text \<open>
  C10. For every proposal that raises the energy, \<open>\<Delta>E > 0\<close>, at a temperature \<open>T > 0\<close>,
  the acceptance probability is \<open>exp (- min (\<Delta>E / T) 700)\<close>; the exponent is clamped from
  above only, so the probability is at least \<open>exp (- 700)\<close>, which is positive: no such
  proposal has probability zero, however large \<open>\<Delta>E\<close> or small \<open>T\<close>.
\<close>

theorem acceptance_probability_bounded_below:
  assumes "0 < delta_E" and "0 < temperature"
  shows "acceptance_probability delta_E temperature = exp (- min (delta_E / temperature) 700)
       \<and> exp (- 700) \<le> acceptance_probability delta_E temperature
       \<and> (0::real) < exp (- 700)
       \<and> acceptance_probability delta_E temperature \<noteq> 0"
proof -
  have "acceptance_probability delta_E temperature = exp (- min (delta_E / temperature) 700)"
    using assms by (simp add: acceptance_probability_def clipped_exponent_def Let_def)
  moreover have "exp (- 700) \<le> acceptance_probability delta_E temperature"
    by (rule acceptance_probability_lower)
  moreover have "acceptance_probability delta_E temperature \<noteq> 0"
    using acceptance_probability_pos [of delta_E temperature] by simp
  ultimately show ?thesis by simp
qed

theorem acceptance_probability_bounded_below_witness:
  "acceptance_probability 1000000 (1 / 1000) = exp (- 700)
   \<and> acceptance_probability 1000000 (1 / 1000) \<noteq> 0"
  using acceptance_probability_bounded_below [of 1000000 "1 / 1000"] by simp

subsection \<open>Rejected proposals\<close>

lemma exp_minus_one_le_half: "exp (- 1 :: real) \<le> 1 / 2"
proof -
  have "(2::real) \<le> exp 1"
    using exp_ge_add_one_self [of "1::real"] by simp
  then have "inverse (exp (1::real)) \<le> inverse 2"
    by (intro le_imp_inverse_le) simp_all
  then show ?thesis
    by (simp add: exp_minus)
qed

lemma acceptance_probability_2_2: "acceptance_probability 2 2 = exp (- 1)"
  by (simp add: acceptance_probability_def clipped_exponent_def Let_def)

lemma mac5_energy_side_1:
  "mpi_allsum (Suc 0)
     (\<lambda>r. compute_elastic_energy_mac5 (Suc 0) (q_grid_of (Suc 0)) B ft r (Suc 0)) = 0"
  by (simp add: mpi_allsum_def compute_elastic_energy_mac5_def local_energy_loop_sum_list
      py_range_step_Suc_0 slab_energy_def np_allclose_zero_def q_grid_of_def fftfreq_def Let_def)

lemma sporc_energy_side_1:
  "mpi_allsum (Suc 0)
     (\<lambda>r. compute_elastic_energy_sporc (Suc 0) (q_grid_of (Suc 0)) B (ft r) r (Suc 0)) = 0"
  by (simp add: mpi_allsum_def compute_elastic_energy_sporc_def local_energy_loop_sum_list
      py_range_step_Suc_0 slab_energy_def np_allclose_zero_def q_grid_of_def fftfreq_def Let_def)

lemma sporc_decide_rejected:
  assumes "\<not> fst (sporc_decide temperature st d (sporc_propose N e1 e2 e3 st d) E_new)"
  shows "snd (sporc_decide temperature st d (sporc_propose N e1 e2 e3 st d) E_new) = st"
  using assms
  by (simp add: sporc_decide_def sporc_propose_def Let_def split: if_splits)

text \<open>
  In \<open>sporc_mpi6.py\<close> a rejected proposal leaves what the rank holds as it was: the lattice
  entry is written back, the spectrum is not copied, and the energy returned is the one
  passed in.
\<close>

theorem sporc_rejected_proposal_conserves:
  assumes "r < length states"
    and "\<not> fst (monte_carlo_step_sporc N temperature q_grid B e1 e2 e3 states ds ! r)"
  shows "snd (monte_carlo_step_sporc N temperature q_grid B e1 e2 e3 states ds ! r) = states ! r"
  using assms
  by (simp add: monte_carlo_step_sporc_nth sporc_decide_rejected)

theorem sporc_rejected_proposal_conserves_witness:
  "\<not> fst (monte_carlo_step_sporc 1 2 (q_grid_of 1) (\<lambda>q. stiffness_aniso1)
             unit_strain_1 unit_strain_2 unit_strain_3
             [\<lparr>lattice_spins = (\<lambda>s. 2), strain_ft = (\<lambda>q i j. 0), current_energy = - 2\<rparr>]
             [\<lparr>site_drawn = (0, 0, 0), choice_index = 0, uniform = 1 / 2\<rparr>] ! 0)
   \<and> snd (monte_carlo_step_sporc 1 2 (q_grid_of 1) (\<lambda>q. stiffness_aniso1)
             unit_strain_1 unit_strain_2 unit_strain_3
             [\<lparr>lattice_spins = (\<lambda>s. 2), strain_ft = (\<lambda>q i j. 0), current_energy = - 2\<rparr>]
             [\<lparr>site_drawn = (0, 0, 0), choice_index = 0, uniform = 1 / 2\<rparr>] ! 0)
       = \<lparr>lattice_spins = (\<lambda>s. 2), strain_ft = (\<lambda>q i j. 0), current_energy = - 2\<rparr>"
proof -
  have rej: "\<not> fst (monte_carlo_step_sporc 1 2 (q_grid_of 1) (\<lambda>q. stiffness_aniso1)
             unit_strain_1 unit_strain_2 unit_strain_3
             [\<lparr>lattice_spins = (\<lambda>s. 2), strain_ft = (\<lambda>q i j. 0), current_energy = - 2\<rparr>]
             [\<lparr>site_drawn = (0, 0, 0), choice_index = 0, uniform = 1 / 2\<rparr>] ! 0)"
    using exp_minus_one_le_half
    by (simp add: monte_carlo_step_sporc_nth fst_sporc_decide sporc_energy_side_1
        acceptance_probability_2_2)
  from rej sporc_rejected_proposal_conserves [OF _ rej] show ?thesis by simp
qed

lemma mac5_decide_rejected:
  assumes "\<not> fst (mac5_decide temperature st d (mac5_propose N e1 e2 e3 st d) E_new)"
  shows "snd (mac5_decide temperature st d (mac5_propose N e1 e2 e3 st d) E_new)
         = \<lparr>lattice_spins5 = lattice_spins5 st,
            strain_field5 = fst (snd (mac5_propose N e1 e2 e3 st d)),
            current_energy5 = current_energy5 st\<rparr>"
  using assms
  by (simp add: mac5_decide_def Let_def split: if_splits prod.splits)

text \<open>
  In \<open>mac5.py\<close> a rejected proposal leaves the lattice and the energy of rank \<open>0\<close> as they
  were, but its strain field holds the reference strain of the proposed spin at the
  proposed site: the entry was written through the second name of the array before the
  test and is not written back.
\<close>

theorem mac5_rejected_proposal_keeps_proposed_strain:
  assumes "0 < length states"
    and "\<not> fst (monte_carlo_step_mac5 N temperature q_grid B e1 e2 e3 states d ! 0)"
    and "proposed_spin_of (lattice_spins5 (states ! 0) (site_drawn d)) (choice_index d) = p"
    and "p = 1 \<or> p = 2 \<or> p = 3"
  shows "lattice_spins5 (snd (monte_carlo_step_mac5 N temperature q_grid B e1 e2 e3 states d ! 0))
           = lattice_spins5 (states ! 0)
       \<and> current_energy5 (snd (monte_carlo_step_mac5 N temperature q_grid B e1 e2 e3 states d ! 0))
           = current_energy5 (states ! 0)
       \<and> strain_field5 (snd (monte_carlo_step_mac5 N temperature q_grid B e1 e2 e3 states d ! 0))
           = (strain_field5 (states ! 0))
               (site_drawn d := (if p = 1 then e1 else if p = 2 then e2 else e3))"
proof -
  let ?E = "mpi_allsum (length states)
              (\<lambda>r. compute_elastic_energy_mac5 N q_grid B
                      (snd (snd (mac5_propose N e1 e2 e3 (states ! 0) d))) r (length states))"
  from assms(1,2)
  have rej: "\<not> fst (mac5_decide temperature (states ! 0) d
                      (mac5_propose N e1 e2 e3 (states ! 0) d) ?E)"
    by (simp add: monte_carlo_step_mac5_nth Let_def)
  have res: "snd (monte_carlo_step_mac5 N temperature q_grid B e1 e2 e3 states d ! 0)
        = \<lparr>lattice_spins5 = lattice_spins5 (states ! 0),
           strain_field5 = fst (snd (mac5_propose N e1 e2 e3 (states ! 0) d)),
           current_energy5 = current_energy5 (states ! 0)\<rparr>"
    using assms(1) mac5_decide_rejected [OF rej]
    by (simp add: monte_carlo_step_mac5_nth Let_def)
  have "fst (snd (mac5_propose N e1 e2 e3 (states ! 0) d))
        = (strain_field5 (states ! 0))
               (site_drawn d := (if p = 1 then e1 else if p = 2 then e2 else e3))"
    using assms(3,4) by (auto simp: mac5_propose_def Let_def)
  with res show ?thesis by simp
qed

lemma proposed_spin_of_2_0: "proposed_spin_of 2 0 = 1"
  by (simp add: proposed_spin_of_def)

lemma mac5_side_1_rejects:
  "\<not> fst (monte_carlo_step_mac5 1 2 (q_grid_of 1) B e1 e2 e3
       [\<lparr>lattice_spins5 = (\<lambda>s. 2), strain_field5 = sf, current_energy5 = - 2\<rparr>]
       \<lparr>site_drawn = (0, 0, 0), choice_index = 0, uniform = 1 / 2\<rparr> ! 0)"
  using exp_minus_one_le_half
  by (simp add: monte_carlo_step_mac5_nth fst_mac5_decide mac5_energy_side_1
      acceptance_probability_2_2 Let_def)

theorem mac5_rejected_proposal_keeps_proposed_strain_witness:
  "strain_field5 (snd (monte_carlo_step_mac5 1 2 (q_grid_of 1) (\<lambda>q. stiffness_aniso1)
       unit_strain_1 unit_strain_2 unit_strain_3
       [\<lparr>lattice_spins5 = (\<lambda>s. 2), strain_field5 = (\<lambda>s. unit_strain_2), current_energy5 = - 2\<rparr>]
       \<lparr>site_drawn = (0, 0, 0), choice_index = 0, uniform = 1 / 2\<rparr> ! 0))
   = (\<lambda>s. unit_strain_2)((0, 0, 0) := unit_strain_1)"
  using mac5_rejected_proposal_keeps_proposed_strain
    [of "[\<lparr>lattice_spins5 = (\<lambda>s. 2), strain_field5 = (\<lambda>s. unit_strain_2), current_energy5 = - 2\<rparr>]"
        1 2 "q_grid_of 1" "\<lambda>q. stiffness_aniso1" unit_strain_1 unit_strain_2 unit_strain_3
        "\<lparr>site_drawn = (0, 0, 0), choice_index = 0, uniform = 1 / 2\<rparr>" 1,
     OF _ mac5_side_1_rejects]
  by (simp add: proposed_spin_of_2_0)

text \<open>
  C3 on \<open>mac5.py\<close>: a rejected proposal does not leave the strain field as it was. A
  lattice of side \<open>1\<close> holds spin \<open>2\<close>, the strain field is the one \<open>compute_strain_field\<close>
  gives for it (reference strains of \<open>epsilon_a = 0\<close>), the temperature is \<open>2\<close> and the energy
  passed in is \<open>-2\<close>; the draws are the site \<open>(0, 0, 0)\<close>, the first candidate (spin \<open>1\<close>) and
  \<open>0.5\<close>. The new energy is \<open>0\<close>, the probability \<open>exp (-1) < 0.5\<close>: the proposal is rejected,
  lattice and energy are unchanged, and the strain at the site has changed from the
  strain of spin \<open>2\<close> to the strain of spin \<open>1\<close>.
\<close>

theorem mac5_rejection_changes_strain_field:
  "\<not> fst (monte_carlo_step_mac5 1 2 (q_grid_of 1)
            (snd (precompute_reciprocal_space_and_kernel_mac5 1 stiffness_aniso1))
            unit_strain_1 unit_strain_2 unit_strain_3
            [\<lparr>lattice_spins5 = (\<lambda>s. 2),
              strain_field5 = compute_strain_field 1 (\<lambda>s. 2)
                                unit_strain_1 unit_strain_2 unit_strain_3,
              current_energy5 = - 2\<rparr>]
            \<lparr>site_drawn = (0, 0, 0), choice_index = 0, uniform = 1 / 2\<rparr> ! 0)
   \<and> lattice_spins5 (snd (monte_carlo_step_mac5 1 2 (q_grid_of 1)
            (snd (precompute_reciprocal_space_and_kernel_mac5 1 stiffness_aniso1))
            unit_strain_1 unit_strain_2 unit_strain_3
            [\<lparr>lattice_spins5 = (\<lambda>s. 2),
              strain_field5 = compute_strain_field 1 (\<lambda>s. 2)
                                unit_strain_1 unit_strain_2 unit_strain_3,
              current_energy5 = - 2\<rparr>]
            \<lparr>site_drawn = (0, 0, 0), choice_index = 0, uniform = 1 / 2\<rparr> ! 0)) = (\<lambda>s. 2)
   \<and> compute_strain_field 1 (\<lambda>s. 2) unit_strain_1 unit_strain_2 unit_strain_3 (0, 0, 0)
       = unit_strain_2
   \<and> strain_field5 (snd (monte_carlo_step_mac5 1 2 (q_grid_of 1)
            (snd (precompute_reciprocal_space_and_kernel_mac5 1 stiffness_aniso1))
            unit_strain_1 unit_strain_2 unit_strain_3
            [\<lparr>lattice_spins5 = (\<lambda>s. 2),
              strain_field5 = compute_strain_field 1 (\<lambda>s. 2)
                                unit_strain_1 unit_strain_2 unit_strain_3,
              current_energy5 = - 2\<rparr>]
            \<lparr>site_drawn = (0, 0, 0), choice_index = 0, uniform = 1 / 2\<rparr> ! 0)) (0, 0, 0)
       = unit_strain_1
   \<and> unit_strain_1 0 0 = 1 \<and> unit_strain_2 0 0 = 0"
proof -
  let ?B = "snd (precompute_reciprocal_space_and_kernel_mac5 1 stiffness_aniso1)"
  let ?sf = "compute_strain_field 1 (\<lambda>s. 2) unit_strain_1 unit_strain_2 unit_strain_3"
  let ?st = "\<lparr>lattice_spins5 = (\<lambda>s. 2), strain_field5 = ?sf, current_energy5 = - 2\<rparr>"
  let ?d = "\<lparr>site_drawn = (0, 0, 0), choice_index = 0, uniform = 1 / 2\<rparr>"
  let ?res = "monte_carlo_step_mac5 1 2 (q_grid_of 1) ?B
                unit_strain_1 unit_strain_2 unit_strain_3 [?st] ?d ! 0"
  have rej: "\<not> fst ?res"
    by (rule mac5_side_1_rejects)
  have dec: "\<not> fst (mac5_decide 2 ?st ?d
                 (mac5_propose 1 unit_strain_1 unit_strain_2 unit_strain_3 ?st ?d) 0)"
    using exp_minus_one_le_half
    by (simp add: fst_mac5_decide acceptance_probability_2_2)
  have res: "snd ?res = \<lparr>lattice_spins5 = (\<lambda>s. 2),
           strain_field5 = fst (snd (mac5_propose 1 unit_strain_1 unit_strain_2 unit_strain_3 ?st ?d)),
           current_energy5 = - 2\<rparr>"
    using mac5_decide_rejected [OF dec]
    by (simp add: monte_carlo_step_mac5_nth mac5_energy_side_1 Let_def)
  have tent: "fst (snd (mac5_propose 1 unit_strain_1 unit_strain_2 unit_strain_3 ?st ?d))
               = ?sf((0, 0, 0) := unit_strain_1)"
    by (simp add: mac5_propose_def Let_def proposed_spin_of_2_0)
  have old: "?sf (0, 0, 0) = unit_strain_2"
    by (simp add: compute_strain_field_def)
  have vals: "unit_strain_1 0 0 = 1" "unit_strain_2 0 0 = 0"
    by (simp_all add: unit_strain_1_def unit_strain_2_def np_array3_def)
  from rej res tent old vals show ?thesis
    by simp
qed

subsection \<open>Replicas across ranks\<close>

lemma sporc_decide_accepted:
  assumes "uniform d < acceptance_probability (E_new - current_energy st) temperature"
  shows "sporc_decide temperature st d (sporc_propose N e1 e2 e3 st d) E_new
         = (True, \<lparr>lattice_spins = (lattice_spins st)
                      (site_drawn d := proposed_spin_of (lattice_spins st (site_drawn d))
                                         (choice_index d)),
                   strain_ft = snd (snd (sporc_propose N e1 e2 e3 st d)),
                   current_energy = E_new\<rparr>)"
  using assms by (simp add: sporc_decide_def sporc_propose_def Let_def)

lemma proposed_spin_of_1: "proposed_spin_of 1 0 = 2" "proposed_spin_of 1 (Suc 0) = 3"
  by (simp_all add: proposed_spin_of_def)

text \<open>
  C4, as the claim states it, fails on \<open>sporc_mpi6.py\<close>, where every rank draws its own
  site, spin and uniform number. Two ranks start from the same state (side \<open>2\<close>, every
  spin \<open>1\<close>, the spectrum and the energy of that lattice); rank \<open>0\<close> draws site \<open>(0, 0, 0)\<close>
  and the first candidate, rank \<open>1\<close> draws site \<open>(1, 1, 1)\<close> and the second, both draw
  the uniform number \<open>0\<close>. Both accept, and after the call the lattice of rank \<open>0\<close> has
  spin \<open>2\<close> at \<open>(0, 0, 0)\<close> where the lattice of rank \<open>1\<close> has spin \<open>1\<close>.
\<close>

theorem sporc_replicas_diverge_counterexample:
  "(let lattice0 = (\<lambda>s. 1);
        q_grid = q_grid_of 2;
        B = snd (precompute_reciprocal_space_and_kernel_sporc 2 stiffness_aniso1);
        ft0 = fftn 2 (compute_strain_field 2 lattice0 unit_strain_1 unit_strain_2 unit_strain_3);
        E0 = mpi_allsum 2 (\<lambda>r. compute_elastic_energy_sporc 2 q_grid B ft0 r 2);
        st = \<lparr>lattice_spins = lattice0, strain_ft = ft0, current_energy = E0\<rparr>;
        res = monte_carlo_step_sporc 2 1 q_grid B unit_strain_1 unit_strain_2 unit_strain_3
                [st, st]
                [\<lparr>site_drawn = (0, 0, 0), choice_index = 0, uniform = 0\<rparr>,
                 \<lparr>site_drawn = (1, 1, 1), choice_index = 1, uniform = 0\<rparr>]
    in fst (res ! 0) \<and> fst (res ! 1)
       \<and> lattice_spins (snd (res ! 0)) (0, 0, 0) = 2
       \<and> lattice_spins (snd (res ! 1)) (0, 0, 0) = 1
       \<and> lattice_spins (snd (res ! 0)) \<noteq> lattice_spins (snd (res ! 1)))"
proof -
  define B where "B = snd (precompute_reciprocal_space_and_kernel_sporc 2 stiffness_aniso1)"
  define ft0 where
    "ft0 = fftn 2 (compute_strain_field 2 (\<lambda>s. 1) unit_strain_1 unit_strain_2 unit_strain_3)"
  define E0 where "E0 = mpi_allsum 2 (\<lambda>r. compute_elastic_energy_sporc 2 (q_grid_of 2) B ft0 r 2)"
  define st where "st = \<lparr>lattice_spins = (\<lambda>s. 1), strain_ft = ft0, current_energy = E0\<rparr>"
  define d0 where "d0 = \<lparr>site_drawn = (0, 0, 0), choice_index = 0, uniform = 0\<rparr>"
  define d1 where "d1 = \<lparr>site_drawn = (1, 1, 1), choice_index = 1, uniform = 0\<rparr>"
  define res where "res = monte_carlo_step_sporc 2 1 (q_grid_of 2) B
                            unit_strain_1 unit_strain_2 unit_strain_3 [st, st] [d0, d1]"
  define E_new where "E_new = mpi_allsum (length [st, st])
      (\<lambda>r. compute_elastic_energy_sporc 2 (q_grid_of 2) B
              (snd (snd (sporc_propose 2 unit_strain_1 unit_strain_2 unit_strain_3
                           ([st, st] ! r) ([d0, d1] ! r))))
              r (length [st, st]))"
  have r0: "res ! 0 = sporc_decide 1 st d0
              (sporc_propose 2 unit_strain_1 unit_strain_2 unit_strain_3 st d0) E_new"
    unfolding res_def E_new_def by (subst monte_carlo_step_sporc_nth) simp_all
  have r1: "res ! 1 = sporc_decide 1 st d1
              (sporc_propose 2 unit_strain_1 unit_strain_2 unit_strain_3 st d1) E_new"
    unfolding res_def E_new_def by (subst monte_carlo_step_sporc_nth) simp_all
  have u0: "uniform d0 < acceptance_probability (E_new - current_energy st) 1"
    using acceptance_probability_pos [of "E_new - current_energy st" 1] by (simp add: d0_def)
  have u1: "uniform d1 < acceptance_probability (E_new - current_energy st) 1"
    using acceptance_probability_pos [of "E_new - current_energy st" 1] by (simp add: d1_def)
  have a0: "fst (res ! 0)" and l0: "lattice_spins (snd (res ! 0)) (0, 0, 0) = 2"
    unfolding r0 sporc_decide_accepted [OF u0]
    by (simp_all add: st_def d0_def proposed_spin_of_1)
  have a1: "fst (res ! 1)" and l1: "lattice_spins (snd (res ! 1)) (0, 0, 0) = 1"
    unfolding r1 sporc_decide_accepted [OF u1]
    by (simp_all add: st_def d1_def proposed_spin_of_1)
  have ne: "lattice_spins (snd (res ! 0)) \<noteq> lattice_spins (snd (res ! 1))"
  proof
    assume "lattice_spins (snd (res ! 0)) = lattice_spins (snd (res ! 1))"
    then have "lattice_spins (snd (res ! 0)) (0, 0, 0) = lattice_spins (snd (res ! 1)) (0, 0, 0)"
      by simp
    with l0 l1 show False by simp
  qed
  from a0 a1 l0 l1 ne show ?thesis
    unfolding Let_def res_def st_def E0_def ft0_def B_def d0_def d1_def by simp
qed

lemma mpi_allsum_1: "mpi_allsum (Suc 0) local = local 0"
  by (simp add: mpi_allsum_def)

text \<open>
  C4, amended. In \<open>mac5.py\<close> the site, the proposed spin and the uniform number are drawn
  by rank \<open>0\<close> alone, and for every worker count \<open>W \<ge> 1\<close> and every rank \<open>r < W\<close> the flag
  \<open>accepted\<close> the call returns on rank \<open>r\<close> is the decision of rank \<open>0\<close>, which is the
  decision a single worker takes from the same state and draws; the state rank \<open>0\<close> holds
  after the call (lattice, strain field, energy) is the single worker's too. (What the
  other ranks hold after the call is not part of this statement.)
\<close>

theorem mac5_decision_independent_of_worker_count:
  assumes "r < length states"
  shows "length (monte_carlo_step_mac5 N temperature q_grid B e1 e2 e3 states d) = length states
       \<and> fst (monte_carlo_step_mac5 N temperature q_grid B e1 e2 e3 states d ! r)
           = fst (monte_carlo_step_mac5 N temperature q_grid B e1 e2 e3 [states ! 0] d ! 0)
       \<and> monte_carlo_step_mac5 N temperature q_grid B e1 e2 e3 states d ! 0
           = monte_carlo_step_mac5 N temperature q_grid B e1 e2 e3 [states ! 0] d ! 0"
proof -
  from assms have W: "0 < length states" by (cases states) simp_all
  let ?ft = "snd (snd (mac5_propose N e1 e2 e3 (states ! 0) d))"
  have E: "mpi_allsum (length states)
             (\<lambda>r. compute_elastic_energy_mac5 N q_grid B ?ft r (length states))
           = compute_elastic_energy_mac5 N q_grid B ?ft 0 1"
    by (rule mac5_energy_partition [OF W])
  have len: "length (monte_carlo_step_mac5 N temperature q_grid B e1 e2 e3 states d)
             = length states"
    by (simp add: monte_carlo_step_mac5_def Let_def)
  have one: "monte_carlo_step_mac5 N temperature q_grid B e1 e2 e3 [states ! 0] d ! 0
        = mac5_decide temperature (states ! 0) d (mac5_propose N e1 e2 e3 (states ! 0) d)
            (compute_elastic_energy_mac5 N q_grid B ?ft 0 1)"
    by (simp add: monte_carlo_step_mac5_nth mpi_allsum_1 Let_def)
  have allr: "monte_carlo_step_mac5 N temperature q_grid B e1 e2 e3 states d ! r'
        = (if r' = 0 then
             mac5_decide temperature (states ! 0) d (mac5_propose N e1 e2 e3 (states ! 0) d)
               (compute_elastic_energy_mac5 N q_grid B ?ft 0 1)
           else (fst (mac5_decide temperature (states ! 0) d
                        (mac5_propose N e1 e2 e3 (states ! 0) d)
                        (compute_elastic_energy_mac5 N q_grid B ?ft 0 1)), states ! r'))"
    if "r' < length states" for r'
    using that by (simp add: monte_carlo_step_mac5_nth E Let_def)
  from len one allr [OF assms] allr [OF W] show ?thesis
    by simp
qed

theorem mac5_decision_independent_of_worker_count_witness:
  "fst (monte_carlo_step_mac5 1 2 (q_grid_of 1) (\<lambda>q. stiffness_aniso1)
          unit_strain_1 unit_strain_2 unit_strain_3
          [\<lparr>lattice_spins5 = (\<lambda>s. 2), strain_field5 = (\<lambda>s. unit_strain_2), current_energy5 = 0\<rparr>,
           \<lparr>lattice_spins5 = (\<lambda>s. 2), strain_field5 = (\<lambda>s. unit_strain_2), current_energy5 = 0\<rparr>]
          \<lparr>site_drawn = (0, 0, 0), choice_index = 0, uniform = 1 / 2\<rparr> ! 1)
   = fst (monte_carlo_step_mac5 1 2 (q_grid_of 1) (\<lambda>q. stiffness_aniso1)
          unit_strain_1 unit_strain_2 unit_strain_3
          [\<lparr>lattice_spins5 = (\<lambda>s. 2), strain_field5 = (\<lambda>s. unit_strain_2), current_energy5 = 0\<rparr>]
          \<lparr>site_drawn = (0, 0, 0), choice_index = 0, uniform = 1 / 2\<rparr> ! 0)"
  using mac5_decision_independent_of_worker_count
    [of 1 "[\<lparr>lattice_spins5 = (\<lambda>s. 2), strain_field5 = (\<lambda>s. unit_strain_2), current_energy5 = 0\<rparr>,
            \<lparr>lattice_spins5 = (\<lambda>s. 2), strain_field5 = (\<lambda>s. unit_strain_2), current_energy5 = 0\<rparr>]"
        1 2 "q_grid_of 1" "\<lambda>q. stiffness_aniso1" unit_strain_1 unit_strain_2 unit_strain_3
        "\<lparr>site_drawn = (0, 0, 0), choice_index = 0, uniform = 1 / 2\<rparr>"]
  by simp

text \<open>
  In \<open>mac5.py\<close> a rank other than \<open>0\<close> leaves a call holding the lattice, the strain field
  and the energy it entered with, whatever rank \<open>0\<close> decided.
\<close>

theorem mac5_other_ranks_keep_state:
  assumes "r < length states" and "r \<noteq> 0"
  shows "snd (monte_carlo_step_mac5 N temperature q_grid B e1 e2 e3 states d ! r) = states ! r"
  using assms by (simp add: monte_carlo_step_mac5_nth Let_def)

theorem mac5_other_ranks_keep_state_witness:
  "snd (monte_carlo_step_mac5 1 2 (q_grid_of 1) (\<lambda>q. stiffness_aniso1)
          unit_strain_1 unit_strain_2 unit_strain_3
          [\<lparr>lattice_spins5 = (\<lambda>s. 2), strain_field5 = (\<lambda>s. unit_strain_2), current_energy5 = 0\<rparr>,
           \<lparr>lattice_spins5 = (\<lambda>s. 2), strain_field5 = (\<lambda>s. unit_strain_2), current_energy5 = 0\<rparr>]
          \<lparr>site_drawn = (0, 0, 0), choice_index = 0, uniform = 1 / 2\<rparr> ! 1)
   = \<lparr>lattice_spins5 = (\<lambda>s. 2), strain_field5 = (\<lambda>s. unit_strain_2), current_energy5 = 0\<rparr>"
  using mac5_other_ranks_keep_state
    [of 1 "[\<lparr>lattice_spins5 = (\<lambda>s. 2), strain_field5 = (\<lambda>s. unit_strain_2), current_energy5 = 0\<rparr>,
            \<lparr>lattice_spins5 = (\<lambda>s. 2), strain_field5 = (\<lambda>s. unit_strain_2), current_energy5 = 0\<rparr>]"
        1 2 "q_grid_of 1" "\<lambda>q. stiffness_aniso1" unit_strain_1 unit_strain_2 unit_strain_3
        "\<lparr>site_drawn = (0, 0, 0), choice_index = 0, uniform = 1 / 2\<rparr>"]
  by simp

subsection \<open>The models of \<open>np.linalg.inv\<close> and \<open>np.allclose\<close>\<close>

lemma cofactor_entries:
  "cofactor M 0 0 = M 1 1 * M 2 2 - M 1 2 * M 2 1"
  "cofactor M 0 (Suc 0) = M 1 2 * M 2 0 - M 1 0 * M 2 2"
  "cofactor M 0 2 = M 1 0 * M 2 1 - M 1 1 * M 2 0"
  "cofactor M (Suc 0) 0 = M 2 1 * M 0 2 - M 2 2 * M 0 1"
  "cofactor M (Suc 0) (Suc 0) = M 2 2 * M 0 0 - M 2 0 * M 0 2"
  "cofactor M (Suc 0) 2 = M 2 0 * M 0 1 - M 2 1 * M 0 0"
  "cofactor M 2 0 = M 0 1 * M 1 2 - M 0 2 * M 1 1"
  "cofactor M 2 (Suc 0) = M 0 2 * M 1 0 - M 0 0 * M 1 2"
  "cofactor M 2 2 = M 0 0 * M 1 1 - M 0 1 * M 1 0"
  by (simp_all add: cofactor_def numeral_2_eq_2 [symmetric])

lemma cofactor_expansion:
  assumes "i < 3" and "j < 3"
  shows "sum3 (\<lambda>k. M i k * cofactor M j k) = (if i = j then np_linalg_det M else 0)"
proof -
  from assms have "(i = 0 \<or> i = 1 \<or> i = 2) \<and> (j = 0 \<or> j = 1 \<or> j = 2)" by arith
  then show ?thesis
    by (elim conjE disjE) (simp_all add: cofactor_entries np_linalg_det_def sum3_def algebra_simps)
qed

text \<open>
  The matrix \<open>np_linalg_inv\<close> returns is the inverse: multiplied with the matrix it gives
  the identity whenever the determinant is not zero, the case in which the kernel
  builders call it.
\<close>

theorem np_linalg_inv_is_inverse:
  assumes "np_linalg_det M \<noteq> 0" and "i < 3" and "j < 3"
  shows "sum3 (\<lambda>k. M i k * np_linalg_inv M k j) = (if i = j then 1 else 0)"
proof -
  have "sum3 (\<lambda>k. M i k * np_linalg_inv M k j)
        = sum3 (\<lambda>k. M i k * cofactor M j k) / np_linalg_det M"
    using assms(3) by (simp add: np_linalg_inv_def sum3_def add_divide_distrib)
  also have "\<dots> = (if i = j then 1 else 0)"
    using assms by (simp add: cofactor_expansion)
  finally show ?thesis .
qed

theorem np_linalg_inv_is_inverse_witness:
  "sum3 (\<lambda>k. acoustic_imjn stiffness_aniso1 minus_x 0 k
                * np_linalg_inv (acoustic_imjn stiffness_aniso1 minus_x) k 0) = 1"
  using np_linalg_inv_is_inverse [of "acoustic_imjn stiffness_aniso1 minus_x" 0 0]
  by (simp add: det_acoustic_imjn_minus_x)

lemma fftfreq_small_iff:
  assumes "0 < N" and "N \<le> 100000000" and "i < N"
  shows "\<bar>fftfreq N (1 / (2 * pi)) i\<bar> \<le> 1 / 10 ^ 8 \<longleftrightarrow> i = 0"
proof (cases "i = 0")
  case True
  then show ?thesis by (simp add: fftfreq_def)
next
  case False
  define m :: real where
    "m = (if i < (N - 1) div 2 + 1 then real i else real_of_int (int i - int N))"
  have m1: "1 \<le> \<bar>m\<bar>"
  proof (cases "i < (N - 1) div 2 + 1")
    case True
    with False show ?thesis by (simp add: m_def)
  next
    case F: False
    from assms(3) have "int i - int N \<le> - 1" by simp
    then have "real_of_int (int i - int N) \<le> real_of_int (- 1)"
      by (rule of_int_le_iff [THEN iffD2])
    then have "real_of_int (int i - int N) \<le> - 1" by simp
    then have "1 \<le> \<bar>real_of_int (int i - int N)\<bar>" by linarith
    with F show ?thesis by (simp only: m_def if_False)
  qed
  have Npos: "0 < real N"
    using assms(1) by simp
  have val: "fftfreq N (1 / (2 * pi)) i = m * (2 * pi / real N)"
    by (simp add: fftfreq_def m_def)
  have N8: "real N \<le> 100000000"
  proof -
    from assms(2) have "real N \<le> real 100000000"
      by (simp only: of_nat_le_iff)
    then show ?thesis by simp
  qed
  have "real N < 2 * pi * 100000000"
    using N8 pi_ge_two by linarith
  then have "real N * (1 / 100000000) < 2 * pi"
    by linarith
  then have step: "1 / 100000000 < 2 * pi / real N"
    using Npos by (simp add: pos_less_divide_eq mult.commute)
  have "2 * pi / real N \<le> \<bar>m\<bar> * (2 * pi / real N)"
  proof -
    have "0 \<le> 2 * pi / real N" using Npos pi_ge_zero by simp
    with m1 show ?thesis
      using mult_right_mono [of 1 "\<bar>m\<bar>" "2 * pi / real N"] by simp
  qed
  also have "\<dots> = \<bar>fftfreq N (1 / (2 * pi)) i\<bar>"
    using Npos pi_ge_zero by (simp only: val abs_mult) simp
  finally have "1 / 100000000 < \<bar>fftfreq N (1 / (2 * pi)) i\<bar>"
    using step by linarith
  then have "\<not> \<bar>fftfreq N (1 / (2 * pi)) i\<bar> \<le> 1 / 10 ^ 8"
    by simp
  with False show ?thesis by simp
qed

text \<open>
  On the grid the scripts build, for every lattice side up to \<open>10^8\<close>, the wavevectors
  \<open>np.allclose(q, 0)\<close> skips in \<open>compute_elastic_energy\<close> are the zero wavevector at grid
  index \<open>(0, 0, 0)\<close> and no other.
\<close>

theorem allclose_skips_only_zero_wavevector:
  assumes "0 < N" and "N \<le> 100000000" and "qx < N" and "qy < N" and "qz < N"
  shows "np_allclose_zero (q_grid_of N (qx, qy, qz)) \<longleftrightarrow> (qx, qy, qz) = (0, 0, 0)"
  using fftfreq_small_iff [OF assms(1,2,3)] fftfreq_small_iff [OF assms(1,2,4)]
    fftfreq_small_iff [OF assms(1,2,5)]
  by (simp add: np_allclose_zero_def q_grid_of_def Let_def)

theorem allclose_skips_only_zero_wavevector_witness:
  "np_allclose_zero (q_grid_of 12 (0, 0, 0)) \<and> \<not> np_allclose_zero (q_grid_of 12 (0, 7, 0))"
  using allclose_skips_only_zero_wavevector [of 12 0 0 0]
    allclose_skips_only_zero_wavevector [of 12 0 7 0]
  by simp

end
